theory Spec2Isabelle
  imports Complex_Main "HOL-Library.Log_Nat"
begin

section \<open>Data model of \<open>ib_client.py\<close>\<close>

text \<open>
  The module talks to an Interactive Brokers session through the \<open>ib_async\<close> library.
  The session is an external collaborator: its answers are parameters of the model
  (\<open>env\<close> below), and its state \<open>'s\<close> is threaded through every call, so that a session
  may answer the same request differently at different times.

  Python exceptions are values: \<open>ConnectionError\<close> is the one \<open>_ensure_connected\<close>
  raises, \<open>OverflowError\<close> and \<open>ValueError\<close> are the ones \<open>round\<close> raises on an
  infinite float and on \<open>nan\<close>, and \<open>Exception\<close> stands for any other exception a
  collaborator raises and \<open>except Exception\<close> catches. Cancellation of the running
  task is outside the model, and so is the pause of \<open>asyncio.sleep\<close>.
\<close>

datatype exn = ConnectionError | OverflowError | ValueError | Exception string

text \<open>
  Prices are Python floats (IEEE binary64): \<open>nan\<close>, the two infinities, and the finite
  floats, each given by its exact value, a rational number. The values finite floats
  take are the binary64 numbers, \<open>is_double\<close> below.
\<close>

datatype pyfloat = NaN | Fin rat | PInf | NInf

text \<open>
  \<open>Contract\<close>, \<open>Ticker\<close> and the greeks are classes of \<open>ib_async\<close>; the records keep the
  fields the module reads or sets. \<open>marketPrice\<close> is a method there, called without
  arguments. Objects of these classes are truthy.
\<close>

datatype secType = IND | STK | OPT

record contract =
  secType :: secType
  conId :: int
  symbol :: string
  lastTradeDateOrContractMonth :: string
  strike :: rat
  right :: string
  exchange :: string
  currency :: string
  tradingClass :: string

record greeks =
  impliedVol :: "pyfloat option"
  gamma :: "pyfloat option"
  delta :: "pyfloat option"

record ticker =
  t_contract :: contract
  marketPrice :: pyfloat
  close :: pyfloat
  bid :: pyfloat
  ask :: pyfloat
  modelGreeks :: "greeks option"
  impliedVolatility :: "pyfloat option"

text \<open>The dictionary built for each quote (lines 281-295), one field per key.\<close>

record option_data =
  od_symbol :: string
  od_underlying_symbol :: string
  od_conId :: int
  od_strike :: rat
  od_right :: string
  od_expiry :: string
  od_bid :: "pyfloat option"
  od_ask :: "pyfloat option"
  od_implied_volatility :: "pyfloat option"
  od_open_interest :: int
  od_gamma :: "pyfloat option"
  od_delta :: "pyfloat option"
  od_underlying_price_at_fetch :: pyfloat

text \<open>
  What the surrounding system provides: the connection manager, the session's two
  requests, the open-interest fetcher, the setting \<open>enable_oi_streaming\<close> and the clock
  (\<open>datetime.now().strftime('%Y%m%d')\<close>). A request that raises still leaves a session
  state behind, because the callers that catch the exception go on using the session.
\<close>

record 's env =
  get_ib_connection :: "'s \<Rightarrow> bool \<times> 's"
  qualifyContractsAsync :: "contract \<Rightarrow> 's \<Rightarrow> (exn + contract option list) \<times> 's"
  reqTickersAsync :: "contract list \<Rightarrow> 's \<Rightarrow> (exn + ticker list) \<times> 's"
  enhance_options_with_oi ::
    "option_data list \<Rightarrow> contract list \<Rightarrow> 's \<Rightarrow> (exn + option_data list) \<times> 's"
  enable_oi_streaming :: bool
  today :: string

text \<open>
  The state of one \<open>IBClient\<close> together with the session it uses. \<open>oi_fetcher\<close> is
  \<open>True\<close> once \<open>self.oi_fetcher\<close> holds a fetcher. \<open>attempts\<close> is an observation, not a
  field of the class: the descriptors handed to \<open>qualifyContractsAsync\<close> so far, oldest
  first, which is what a mock session would count.
\<close>

record 's client =
  ib_state :: 's
  oi_fetcher :: bool
  attempts :: "contract list"

section \<open>Descriptors and the alias and exchange tables\<close>

definition Contract :: "secType \<Rightarrow> contract" where
  "Contract st = \<lparr>secType = st, conId = 0, symbol = [], lastTradeDateOrContractMonth = [],
     strike = 0, right = [], exchange = [], currency = [], tradingClass = []\<rparr>"

definition Index :: "string \<Rightarrow> string \<Rightarrow> string \<Rightarrow> contract" where
  "Index sy exch cur = (Contract IND)\<lparr>symbol := sy, exchange := exch, currency := cur\<rparr>"

definition Stock :: "string \<Rightarrow> string \<Rightarrow> string \<Rightarrow> contract" where
  "Stock sy exch cur = (Contract STK)\<lparr>symbol := sy, exchange := exch, currency := cur\<rparr>"

definition Option :: "string \<Rightarrow> string \<Rightarrow> rat \<Rightarrow> string \<Rightarrow> string \<Rightarrow> string \<Rightarrow> contract" where
  "Option sy expiry k r exch cur =
     (Contract OPT)\<lparr>symbol := sy, lastTradeDateOrContractMonth := expiry, strike := k,
       right := r, exchange := exch, currency := cur\<rparr>"

text \<open>\<open>d.get(k, default)\<close> on a dictionary literal, kept as an association list.\<close>

definition dict_get :: "('k \<times> 'v) list \<Rightarrow> 'k \<Rightarrow> 'v \<Rightarrow> 'v" where
  "dict_get d k dflt = (case map_of d k of Some v \<Rightarrow> v | None \<Rightarrow> dflt)"

definition underlying_symbol_variations :: "(string \<times> string list) list" where
  "underlying_symbol_variations =
     [(''SPX'', [''SPX'', ''SPXW'']),
      (''RUT'', [''RUT'']),
      (''SPY'', [''SPY'']),
      (''QQQ'', [''QQQ'']),
      (''IWM'', [''IWM'']),
      (''VIX'', [''VIX'']),
      (''NDX'', [''NDX''])]"

definition underlying_exchange_map :: "(string \<times> string list) list" where
  "underlying_exchange_map =
     [(''SPX'', [''CBOE'', ''SMART'']),
      (''SPXW'', [''CBOE'', ''SMART'']),
      (''RUT'', [''SMART'', ''CBOE'', ''RUSSELL'']),
      (''SPY'', [''SMART'', ''CBOE'', ''ARCA'', ''BATS'']),
      (''QQQ'', [''SMART'', ''NASDAQ'', ''CBOE'']),
      (''IWM'', [''SMART'', ''ARCA'', ''CBOE'']),
      (''VIX'', [''CBOE'', ''SMART'']),
      (''NDX'', [''NASDAQ'', ''SMART''])]"

definition option_symbol_variations :: "(string \<times> string list) list" where
  "option_symbol_variations =
     [(''SPX'', [''SPXW'', ''SPX'']),
      (''RUT'', [''RUT'']),
      (''SPY'', [''SPY'']),
      (''QQQ'', [''QQQ'']),
      (''IWM'', [''IWM'']),
      (''NDX'', [''NDX''])]"

definition option_exchange_map :: "(string \<times> string list) list" where
  "option_exchange_map =
     [(''SPX'', [''SMART'', ''CBOE'']),
      (''SPXW'', [''SMART'', ''CBOE'']),
      (''RUT'', [''SMART'', ''CBOE'', ''RUSSELL'']),
      (''SPY'', [''SMART'', ''CBOE'', ''ARCA'', ''BATS'', ''AMEX'', ''ISE'']),
      (''QQQ'', [''SMART'', ''NASDAQ'', ''CBOE'', ''ARCA'']),
      (''IWM'', [''SMART'', ''ARCA'', ''CBOE'']),
      (''NDX'', [''SMART'', ''NASDAQ''])]"

section \<open>Connection\<close>

text \<open>
  \<open>_ensure_connected\<close> (lines 21-32): no connection raises \<open>ConnectionError\<close>; otherwise the
  open-interest fetcher is created when streaming is enabled and none exists yet.
\<close>

definition ensure_connected :: "'s env \<Rightarrow> 's client \<Rightarrow> exn + 's client" where
  "ensure_connected env w =
     (case get_ib_connection env (ib_state w) of
        (ib, s') \<Rightarrow>
          if \<not> ib then Inl ConnectionError
          else Inr (w\<lparr>ib_state := s',
                      oi_fetcher := (if enable_oi_streaming env \<and> \<not> oi_fetcher w then True
                                     else oi_fetcher w)\<rparr>))"

section \<open>Fallback qualification\<close>

text \<open>One call of \<open>ib.qualifyContractsAsync\<close>, recorded in \<open>attempts\<close>.\<close>

definition ib_qualify ::
  "'s env \<Rightarrow> contract \<Rightarrow> 's client \<Rightarrow> (exn + contract option list) \<times> 's client" where
  "ib_qualify env c w =
     (case qualifyContractsAsync env c (ib_state w) of
        (r, s') \<Rightarrow> (r, w\<lparr>ib_state := s', attempts := attempts w @ [c]\<rparr>))"

text \<open>
  The test \<open>if qualified and qualified[0].conId: return qualified[0]\<close> inside
  \<open>try ... except Exception: continue\<close>: an exception of the request, an empty list, a
  first element \<open>None\<close> (whose \<open>.conId\<close> raises inside the \<open>try\<close>) and a zero
  \<open>conId\<close> all lead to the next combination.
\<close>

fun accepted :: "exn + contract option list \<Rightarrow> contract option" where
  "accepted (Inl e) = None"
| "accepted (Inr []) = None"
| "accepted (Inr (None # qs)) = None"
| "accepted (Inr (Some c # qs)) = (if conId c \<noteq> 0 then Some c else None)"

text \<open>
  The inner loop \<open>for exchange in exchanges\<close> and the outer loop
  \<open>for sym_variant in symbol_variations\<close> are the same in both qualification functions
  (lines 102-121 and 151-181); they differ in the tables and in the descriptor built for
  an alias and an exchange, which is the parameter \<open>mk\<close>. A \<open>return\<close> inside the inner
  loop leaves both loops.
\<close>

fun exchange_loop ::
  "'s env \<Rightarrow> (string \<Rightarrow> contract) \<Rightarrow> string list \<Rightarrow> 's client \<Rightarrow> contract option \<times> 's client" where
  "exchange_loop env mk [] w = (None, w)"
| "exchange_loop env mk (exch # exchanges) w =
     (case ib_qualify env (mk exch) w of
        (qualified, w') \<Rightarrow>
          (case accepted qualified of
             Some c \<Rightarrow> (Some c, w')
           | None \<Rightarrow> exchange_loop env mk exchanges w'))"

fun variant_loop ::
  "'s env \<Rightarrow> (string \<times> string list) list \<Rightarrow> (string \<Rightarrow> string \<Rightarrow> contract) \<Rightarrow> string list \<Rightarrow>
     's client \<Rightarrow> contract option \<times> 's client" where
  "variant_loop env exchange_map mk [] w = (None, w)"
| "variant_loop env exchange_map mk (sym_variant # variations) w =
     (case exchange_loop env (mk sym_variant)
             (dict_get exchange_map sym_variant [''SMART'']) w of
        (Some c, w') \<Rightarrow> (Some c, w')
      | (None, w') \<Rightarrow> variant_loop env exchange_map mk variations w')"

definition underlying_descriptor :: "string \<Rightarrow> string \<Rightarrow> string \<Rightarrow> contract" where
  "underlying_descriptor symbol_name sym_variant exch =
     (if symbol_name \<in> set [''SPX'', ''RUT'', ''VIX'', ''NDX'']
      then Index sym_variant exch ''USD''
      else Stock sym_variant exch ''USD'')"

definition qualify_underlying_with_fallback ::
  "'s env \<Rightarrow> string \<Rightarrow> 's client \<Rightarrow> exn + (contract option \<times> 's client)" where
  "qualify_underlying_with_fallback env symbol_name w =
     (case ensure_connected env w of
        Inl e \<Rightarrow> Inl e
      | Inr w1 \<Rightarrow>
          Inr (variant_loop env underlying_exchange_map (underlying_descriptor symbol_name)
                 (dict_get underlying_symbol_variations symbol_name [symbol_name]) w1))"

text \<open>
  The option descriptor (lines 157-170). \<open>trading_class\<close> is \<open>None\<close> or a string; an
  empty string is falsy, as \<open>None\<close> is.
\<close>

definition option_descriptor ::
  "string \<Rightarrow> rat \<Rightarrow> string \<Rightarrow> string option \<Rightarrow> string \<Rightarrow> string \<Rightarrow> contract" where
  "option_descriptor expiry_date k r trading_class sym_variant exch =
     (let opt_contract = Option sym_variant expiry_date k r exch ''USD'' in
      case trading_class of
        Some tc \<Rightarrow>
          if tc \<noteq> [] then opt_contract\<lparr>tradingClass := tc\<rparr>
          else if sym_variant = ''SPXW'' then opt_contract\<lparr>tradingClass := ''SPXW''\<rparr>
          else opt_contract
      | None \<Rightarrow>
          if sym_variant = ''SPXW'' then opt_contract\<lparr>tradingClass := ''SPXW''\<rparr>
          else opt_contract)"

definition qualify_option_with_fallback ::
  "'s env \<Rightarrow> string \<Rightarrow> string \<Rightarrow> rat \<Rightarrow> string \<Rightarrow> string option \<Rightarrow> 's client \<Rightarrow>
     exn + (contract option \<times> 's client)" where
  "qualify_option_with_fallback env symbol_name expiry_date k r trading_class w =
     (case ensure_connected env w of
        Inl e \<Rightarrow> Inl e
      | Inr w1 \<Rightarrow>
          Inr (variant_loop env option_exchange_map
                 (option_descriptor expiry_date k r trading_class)
                 (dict_get option_symbol_variations symbol_name [symbol_name]) w1))"

section \<open>Float arithmetic\<close>

text \<open>
  Python's \<open>round(x)\<close> with one argument rounds the exact value of the float to the
  nearest integer, ties to the even one.
\<close>

definition round_half_even :: "rat \<Rightarrow> int" where
  "round_half_even x =
     (let f = \<lfloor>x\<rfloor>; d = x - of_int f in
      if d < 1 / 2 then f
      else if 1 / 2 < d then f + 1
      else if even f then f else f + 1)"

text \<open>
  \<open>ilog2 x\<close> is the binary exponent of a positive rational: \<open>2 powi ilog2 x \<le> x\<close> and
  \<open>x < 2 powi (ilog2 x + 1)\<close>. \<open>quantum x\<close> is the spacing of the binary64
  numbers around \<open>x\<close>: 53 significant bits, and \<open>2 powi - 1074\<close> in the subnormal range.
\<close>

definition ilog2 :: "rat \<Rightarrow> int" where
  "ilog2 x =
     (case quotient_of x of
        (p, q) \<Rightarrow> (let d = bitlen p - bitlen q in if 2 powi d \<le> x then d else d - 1))"

definition quantum :: "rat \<Rightarrow> rat" where
  "quantum x = 2 powi (max (ilog2 \<bar>x\<bar> - 52) (- 1074))"


text \<open>
  The float an exact result is rounded to: the nearest binary64 number, ties to the even
  significand, an infinity when that is out of range.
\<close>

definition round_to_double :: "rat \<Rightarrow> pyfloat" where
  "round_to_double x =
     (if x = 0 then Fin 0
      else (let r = of_int (round_half_even (x / quantum x)) * quantum x in
            if 2 powi 1024 \<le> \<bar>r\<bar> then (if 0 < x then PInf else NInf) else Fin r))"

text \<open>
  \<open>x / d\<close> for a float \<open>x\<close> and a positive integer constant \<open>d\<close> (the source divides by
  5): the exact quotient, rounded. An integer \<open>x\<close>, as the placeholder is, gives the same
  float.
\<close>

fun float_div :: "pyfloat \<Rightarrow> rat \<Rightarrow> pyfloat" where
  "float_div NaN d = NaN"
| "float_div PInf d = PInf"
| "float_div NInf d = NInf"
| "float_div (Fin x) d = round_to_double (x / d)"

fun py_round :: "pyfloat \<Rightarrow> exn + int" where
  "py_round NaN = Inl ValueError"
| "py_round PInf = Inl OverflowError"
| "py_round NInf = Inl OverflowError"
| "py_round (Fin x) = Inr (round_half_even x)"

section \<open>Spot price, ATM strike and strike range\<close>

text \<open>Truthiness of a float: zero is falsy, every other value (\<open>nan\<close> too) is truthy.\<close>

fun truthy :: "pyfloat \<Rightarrow> bool" where
  "truthy (Fin x) = (x \<noteq> 0)"
| "truthy p = True"

text \<open>\<open>x <= 0\<close> (false on \<open>nan\<close>) and \<open>str(x) == 'nan'\<close>.\<close>

fun le_zero :: "pyfloat \<Rightarrow> bool" where
  "le_zero (Fin x) = (x \<le> 0)"
| "le_zero NInf = True"
| "le_zero p = False"

fun is_nan :: "pyfloat \<Rightarrow> bool" where
  "is_nan NaN = True"
| "is_nan p = False"

text \<open>
  Lines 214-222. A \<open>Ticker\<close> object is truthy, so \<open>tickers and tickers[0]\<close> is the test
  that the list is not empty. The result is the price of the first quote when that is a
  positive number (\<open>inf\<close> passes the three tests), and the placeholder 5000 otherwise.
\<close>

definition spot_price_of :: "ticker list \<Rightarrow> pyfloat" where
  "spot_price_of tickers =
     (case tickers of
        [] \<Rightarrow> Fin 5000
      | t0 # ts \<Rightarrow>
          if truthy (marketPrice t0) \<or> truthy (close t0) then
            (let spot_price = (if truthy (marketPrice t0) then marketPrice t0 else close t0) in
             if \<not> truthy spot_price \<or> le_zero spot_price \<or> is_nan spot_price then Fin 5000
             else spot_price)
          else Fin 5000)"

text \<open>
  Lines 225-230: \<open>round(spot_price / 5) * 5\<close> divides floats and multiplies integers;
  an exception of \<open>round\<close> leaves the function.
\<close>

definition times_five :: "exn + int \<Rightarrow> exn + int" where
  "times_five r = (case r of Inl e \<Rightarrow> Inl e | Inr n \<Rightarrow> Inr (n * 5))"

definition atm_strike :: "string \<Rightarrow> pyfloat \<Rightarrow> exn + int" where
  "atm_strike symbol_name spot_price =
     (if symbol_name \<in> set [''SPX'', ''SPXW'', ''NDX'']
        then times_five (py_round (float_div spot_price 5))
      else if symbol_name = ''SPY'' then py_round spot_price
      else times_five (py_round (float_div spot_price 5)))"

text \<open>Line 233.\<close>

definition strike_increment :: "string \<Rightarrow> int" where
  "strike_increment symbol_name =
     (if symbol_name \<in> set [''SPX'', ''SPXW'', ''RUT'', ''NDX''] then 5 else 1)"

text \<open>
  Lines 235-236, the comprehension over \<open>range(-n, n + 1)\<close>, with the three local
  variables as arguments; \<open>get_atm_options\<close> fixes \<open>n = num_strikes_each_side = 20\<close>.
\<close>

definition strikes_to_check :: "int \<Rightarrow> int \<Rightarrow> int \<Rightarrow> int list" where
  "strikes_to_check atm strike_inc n = map (\<lambda>i. atm + i * strike_inc) [- n..n]"

definition num_strikes_each_side :: int where
  "num_strikes_each_side = 20"

section \<open>Assembling the chain\<close>

text \<open>
  Lines 241-248: for every strike and for \<open>'C'\<close> then \<open>'P'\<close>, qualify the option and
  append it to \<open>qualified_options\<close> when found. Only the \<open>ConnectionError\<close> of the
  qualification's own connection check can leave the loops.
\<close>

fun right_loop ::
  "'s env \<Rightarrow> string \<Rightarrow> string \<Rightarrow> int \<Rightarrow> string option \<Rightarrow> string list \<Rightarrow> contract list \<Rightarrow>
     's client \<Rightarrow> exn + (contract list \<times> 's client)" where
  "right_loop env symbol_name expiry_date k tc [] qualified_options w =
     Inr (qualified_options, w)"
| "right_loop env symbol_name expiry_date k tc (r # rs) qualified_options w =
     (case qualify_option_with_fallback env symbol_name expiry_date (of_int k) r tc w of
        Inl e \<Rightarrow> Inl e
      | Inr (qualified_opt, w') \<Rightarrow>
          right_loop env symbol_name expiry_date k tc rs
            (case qualified_opt of
               Some c \<Rightarrow> qualified_options @ [c]
             | None \<Rightarrow> qualified_options) w')"

fun strike_loop ::
  "'s env \<Rightarrow> string \<Rightarrow> string \<Rightarrow> string option \<Rightarrow> int list \<Rightarrow> contract list \<Rightarrow>
     's client \<Rightarrow> exn + (contract list \<times> 's client)" where
  "strike_loop env symbol_name expiry_date tc [] qualified_options w =
     Inr (qualified_options, w)"
| "strike_loop env symbol_name expiry_date tc (k # ks) qualified_options w =
     (case right_loop env symbol_name expiry_date k tc [''C'', ''P''] qualified_options w of
        Inl e \<Rightarrow> Inl e
      | Inr (qualified_options', w') \<Rightarrow>
          strike_loop env symbol_name expiry_date tc ks qualified_options' w')"

text \<open>Lines 261-295: the record built from one quote.\<close>

definition numeric :: "pyfloat option \<Rightarrow> bool" where
  "numeric v = (case v of None \<Rightarrow> False | Some x \<Rightarrow> \<not> is_nan x)"

definition implied_volatility_of :: "ticker \<Rightarrow> pyfloat option" where
  "implied_volatility_of t =
     (case modelGreeks t of
        Some g \<Rightarrow>
          if numeric (impliedVol g) then impliedVol g
          else if numeric (impliedVolatility t) then impliedVolatility t
          else None
      | None \<Rightarrow> if numeric (impliedVolatility t) then impliedVolatility t else None)"

definition gamma_of :: "ticker \<Rightarrow> pyfloat option" where
  "gamma_of t =
     (case modelGreeks t of
        Some g \<Rightarrow> if numeric (gamma g) then gamma g else None
      | None \<Rightarrow> None)"

definition delta_of :: "ticker \<Rightarrow> pyfloat option" where
  "delta_of t =
     (case modelGreeks t of
        Some g \<Rightarrow> if numeric (delta g) then delta g else None
      | None \<Rightarrow> None)"

definition make_option_data :: "string \<Rightarrow> pyfloat \<Rightarrow> ticker \<Rightarrow> option_data" where
  "make_option_data symbol_name spot_price t =
     \<lparr>od_symbol = symbol_name,
      od_underlying_symbol = symbol (t_contract t),
      od_conId = conId (t_contract t),
      od_strike = strike (t_contract t),
      od_right = right (t_contract t),
      od_expiry = lastTradeDateOrContractMonth (t_contract t),
      od_bid = (if bid t \<noteq> Fin (- 1) then Some (bid t) else None),
      od_ask = (if ask t \<noteq> Fin (- 1) then Some (ask t) else None),
      od_implied_volatility = implied_volatility_of t,
      od_open_interest = 0,
      od_gamma = gamma_of t,
      od_delta = delta_of t,
      od_underlying_price_at_fetch = spot_price\<rparr>"

text \<open>
  Lines 300-312: the open-interest step. An exception of the fetcher is caught and the
  records built so far are kept.
\<close>

definition oi_step ::
  "'s env \<Rightarrow> option_data list \<Rightarrow> contract list \<Rightarrow> 's client \<Rightarrow> option_data list \<times> 's client" where
  "oi_step env symbol_options_data symbol_contracts w =
     (if oi_fetcher w \<and> enable_oi_streaming env \<and> symbol_options_data \<noteq> [] then
        (case enhance_options_with_oi env symbol_options_data symbol_contracts (ib_state w) of
           (Inr enhanced, s') \<Rightarrow> (enhanced, w\<lparr>ib_state := s'\<rparr>)
         | (Inl e, s') \<Rightarrow> (symbol_options_data, w\<lparr>ib_state := s'\<rparr>))
      else (symbol_options_data, w))"

text \<open>
  Lines 254-312 for one symbol, from the bulk quote request on. The request is outside
  any \<open>try\<close>: its exception leaves \<open>get_atm_options\<close>.
\<close>

definition quote_step ::
  "'s env \<Rightarrow> string \<Rightarrow> pyfloat \<Rightarrow> contract list \<Rightarrow> 's client \<Rightarrow>
     exn + (option_data list \<times> 's client)" where
  "quote_step env symbol_name spot_price qualified_options w =
     (case reqTickersAsync env qualified_options (ib_state w) of
        (Inl e, s') \<Rightarrow> Inl e
      | (Inr tickers_for_options, s') \<Rightarrow>
          Inr (oi_step env (map (make_option_data symbol_name spot_price) tickers_for_options)
                 (map t_contract tickers_for_options) (w\<lparr>ib_state := s'\<rparr>)))"

text \<open>
  The body of \<open>for symbol_name in symbols\<close> (lines 203-314): the records it appends to
  \<open>options_data\<close>, none where the source says \<open>continue\<close>. The spot quote request and
  the rounding of the ATM strike are outside any \<open>try\<close>.
\<close>

definition symbol_step ::
  "'s env \<Rightarrow> string \<Rightarrow> string \<Rightarrow> 's client \<Rightarrow> exn + (option_data list \<times> 's client)" where
  "symbol_step env expiry_date symbol_name w =
     (case qualify_underlying_with_fallback env symbol_name w of
        Inl e \<Rightarrow> Inl e
      | Inr (None, w1) \<Rightarrow> Inr ([], w1)
      | Inr (Some underlying_contract, w1) \<Rightarrow>
          (case reqTickersAsync env [underlying_contract] (ib_state w1) of
             (Inl e, s2) \<Rightarrow> Inl e
           | (Inr tickers, s2) \<Rightarrow>
               (let spot_price = spot_price_of tickers in
                case atm_strike symbol_name spot_price of
                  Inl e \<Rightarrow> Inl e
                | Inr atm \<Rightarrow>
                    (case strike_loop env symbol_name expiry_date
                            (Some (tradingClass underlying_contract))
                            (strikes_to_check atm (strike_increment symbol_name)
                               num_strikes_each_side) []
                            (w1\<lparr>ib_state := s2\<rparr>) of
                       Inl e \<Rightarrow> Inl e
                     | Inr (qualified_options, w3) \<Rightarrow>
                         if qualified_options = [] then Inr ([], w3)
                         else quote_step env symbol_name spot_price qualified_options w3))))"

fun symbols_loop ::
  "'s env \<Rightarrow> string \<Rightarrow> string list \<Rightarrow> option_data list \<Rightarrow> 's client \<Rightarrow>
     exn + (option_data list \<times> 's client)" where
  "symbols_loop env expiry_date [] options_data w = Inr (options_data, w)"
| "symbols_loop env expiry_date (symbol_name # symbols) options_data w =
     (case symbol_step env expiry_date symbol_name w of
        Inl e \<Rightarrow> Inl e
      | Inr (symbol_options_data, w') \<Rightarrow>
          symbols_loop env expiry_date symbols (options_data @ symbol_options_data) w')"

text \<open>
  \<open>get_atm_options\<close> (lines 186-316). \<open>days_to_expiry\<close> is a parameter of the source
  function and is kept as one.
\<close>

definition get_atm_options ::
  "'s env \<Rightarrow> string list \<Rightarrow> int \<Rightarrow> 's client \<Rightarrow> exn + (option_data list \<times> 's client)" where
  "get_atm_options env symbols days_to_expiry w =
     (case ensure_connected env w of
        Inl e \<Rightarrow> Inl e
      | Inr w0 \<Rightarrow>
          if symbols = [] then Inr ([], w0)
          else symbols_loop env (today env) symbols [] w0)"

section \<open>The declared priority order\<close>

text \<open>
  The order the tables declare, written without the loops: for each alias in turn, each of
  its exchanges in turn. The loops of the source are compared with a plain search along
  this list.
\<close>

definition combinations ::
  "(string \<times> string list) list \<Rightarrow> (string \<Rightarrow> string \<Rightarrow> contract) \<Rightarrow> string list \<Rightarrow> contract list" where
  "combinations exchange_map mk variations =
     concat (map (\<lambda>a. map (mk a) (dict_get exchange_map a [''SMART''])) variations)"

definition underlying_combinations :: "string \<Rightarrow> contract list" where
  "underlying_combinations symbol_name =
     combinations underlying_exchange_map (underlying_descriptor symbol_name)
       (dict_get underlying_symbol_variations symbol_name [symbol_name])"

definition option_combinations ::
  "string \<Rightarrow> string \<Rightarrow> rat \<Rightarrow> string \<Rightarrow> string option \<Rightarrow> contract list" where
  "option_combinations symbol_name expiry_date k r trading_class =
     combinations option_exchange_map (option_descriptor expiry_date k r trading_class)
       (dict_get option_symbol_variations symbol_name [symbol_name])"

fun first_success :: "'s env \<Rightarrow> contract list \<Rightarrow> 's client \<Rightarrow> contract option \<times> 's client" where
  "first_success env [] w = (None, w)"
| "first_success env (c # cs) w =
     (case ib_qualify env c w of
        (qualified, w') \<Rightarrow>
          (case accepted qualified of
             Some r \<Rightarrow> (Some r, w')
           | None \<Rightarrow> first_success env cs w'))"


fun session_after :: "'s env \<Rightarrow> contract list \<Rightarrow> 's \<Rightarrow> 's" where
  "session_after env [] s = s"
| "session_after env (c # cs) s = session_after env cs (snd (qualifyContractsAsync env c s))"

text \<open>
  \<open>extends_with P w w'\<close>: the descriptors submitted up to \<open>w'\<close> are those submitted up to
  \<open>w\<close> followed by descriptors that all satisfy \<open>P\<close>.
\<close>

definition extends_with :: "(contract \<Rightarrow> bool) \<Rightarrow> 's client \<Rightarrow> 's client \<Rightarrow> bool" where
  "extends_with P w w' =
     (take (length (attempts w)) (attempts w') = attempts w \<and>
      list_all P (drop (length (attempts w)) (attempts w')))"

definition dated :: "string \<Rightarrow> contract \<Rightarrow> bool" where
  "dated d c = (if secType c = OPT then lastTradeDateOrContractMonth c = d else True)"


section \<open>Concrete sessions\<close>


text \<open>A session that never qualifies anything, failing in a different way each time.\<close>

definition dead_session :: "nat env" where
  "dead_session =
     \<lparr>get_ib_connection = (\<lambda>s. (True, s)),
      qualifyContractsAsync =
        (\<lambda>c n. (if n mod 3 = 0 then Inl (Exception ''timeout'')
                 else if n mod 3 = 1 then Inr []
                 else Inr [Some (c\<lparr>conId := 0\<rparr>)], Suc n)),
      reqTickersAsync = (\<lambda>cs s. (Inr [], s)),
      enhance_options_with_oi = (\<lambda>d cs s. (Inr d, s)),
      enable_oi_streaming = False,
      today = ''20240102''\<rparr>"

definition fresh_counter :: "nat client" where
  "fresh_counter = \<lparr>ib_state = 0, oi_fetcher = False, attempts = []\<rparr>"

definition fresh :: "unit client" where
  "fresh = \<lparr>ib_state = (), oi_fetcher = False, attempts = []\<rparr>"

text \<open>A quote: market price 5001.25, no bid (the sentinel -1), ask 12.5, no greeks.\<close>

definition quote_for :: "contract \<Rightarrow> ticker" where
  "quote_for c =
     \<lparr>t_contract = c, marketPrice = Fin (20005 / 4), close = NaN, bid = Fin (- 1),
      ask = Fin (25 / 2), modelGreeks = None, impliedVolatility = Some NaN\<rparr>"


text \<open>
  A session that knows the index SPX on CBOE, the 5000 call only as SPXW, the 5005 call
  only as SPX, and nothing else.
\<close>

definition mixed_session :: "unit env" where
  "mixed_session =
     \<lparr>get_ib_connection = (\<lambda>s. (True, s)),
      qualifyContractsAsync =
        (\<lambda>c s.
           (if secType c = IND \<and> symbol c = ''SPX'' \<and> exchange c = ''CBOE''
              \<or> secType c = OPT \<and> symbol c = ''SPXW'' \<and> strike c = 5000 \<and> right c = ''C''
              \<or> secType c = OPT \<and> symbol c = ''SPX'' \<and> strike c = 5005 \<and> right c = ''C''
            then Inr [Some (c\<lparr>conId := 7\<rparr>)] else Inr [], s)),
      reqTickersAsync = (\<lambda>cs s. (Inr (map quote_for cs), s)),
      enhance_options_with_oi = (\<lambda>d cs s. (Inr d, s)),
      enable_oi_streaming = False,
      today = ''20240102''\<rparr>"

definition mixed_pick :: "int \<Rightarrow> string \<Rightarrow> contract option" where
  "mixed_pick k r =
     (if k = 5000 \<and> r = ''C''
        then Some ((Option ''SPXW'' ''20240102'' 5000 ''C'' ''SMART'' ''USD'')
                     \<lparr>conId := 7, tradingClass := ''SPXW''\<rparr>)
      else if k = 5005 \<and> r = ''C''
        then Some ((Option ''SPX'' ''20240102'' 5005 ''C'' ''SMART'' ''USD'')\<lparr>conId := 7\<rparr>)
      else None)"

definition mixed_records :: "option_data list" where
  "mixed_records =
     [\<lparr>od_symbol = ''SPX'', od_underlying_symbol = ''SPXW'', od_conId = 7, od_strike = 5000,
       od_right = ''C'', od_expiry = ''20240102'', od_bid = None, od_ask = Some (Fin (25 / 2)),
       od_implied_volatility = None, od_open_interest = 0, od_gamma = None, od_delta = None,
       od_underlying_price_at_fetch = Fin (20005 / 4)\<rparr>,
      \<lparr>od_symbol = ''SPX'', od_underlying_symbol = ''SPX'', od_conId = 7, od_strike = 5005,
       od_right = ''C'', od_expiry = ''20240102'', od_bid = None, od_ask = Some (Fin (25 / 2)),
       od_implied_volatility = None, od_open_interest = 0, od_gamma = None, od_delta = None,
       od_underlying_price_at_fetch = Fin (20005 / 4)\<rparr>]"

text \<open>
  Sessions that know the index SPX on CBOE and the two SPXW options at 5000. In the first
  open-interest streaming is enabled and the fetcher raises. In the second the spot quote
  arrives and the bulk quote request raises. In the third the spot quote carries an
  infinite price.
\<close>

definition knows_5000 :: "contract \<Rightarrow> unit \<Rightarrow> (exn + contract option list) \<times> unit" where
  "knows_5000 c s =
     (if secType c = IND \<and> symbol c = ''SPX'' \<and> exchange c = ''CBOE''
         \<or> secType c = OPT \<and> symbol c = ''SPXW'' \<and> strike c = 5000
      then Inr [Some (c\<lparr>conId := 1\<rparr>)] else Inr [], s)"

definition oi_failure_session :: "unit env" where
  "oi_failure_session =
     \<lparr>get_ib_connection = (\<lambda>s. (True, s)),
      qualifyContractsAsync = knows_5000,
      reqTickersAsync = (\<lambda>cs s. (Inr (map quote_for cs), s)),
      enhance_options_with_oi = (\<lambda>d cs s. (Inl (Exception ''no open interest''), s)),
      enable_oi_streaming = True,
      today = ''20240102''\<rparr>"




definition spx_index :: contract where
  "spx_index = (Index ''SPX'' ''CBOE'' ''USD'')\<lparr>conId := 1\<rparr>"

definition pick_5000 :: "int \<Rightarrow> string \<Rightarrow> contract option" where
  "pick_5000 k r =
     (if k = 5000
        then Some ((Option ''SPXW'' ''20240102'' 5000 r ''SMART'' ''USD'')
                     \<lparr>conId := 1, tradingClass := ''SPXW''\<rparr>)
      else None)"

definition options_5000 :: "contract list" where
  "options_5000 =
     [(Option ''SPXW'' ''20240102'' 5000 ''C'' ''SMART'' ''USD'')
         \<lparr>conId := 1, tradingClass := ''SPXW''\<rparr>,
      (Option ''SPXW'' ''20240102'' 5000 ''P'' ''SMART'' ''USD'')
         \<lparr>conId := 1, tradingClass := ''SPXW''\<rparr>]"

text \<open>
  A session that knows the stock QQQ and the two QQQ options at 5000, and nothing else.
\<close>

definition qqq_session :: "unit env" where
  "qqq_session =
     \<lparr>get_ib_connection = (\<lambda>s. (True, s)),
      qualifyContractsAsync =
        (\<lambda>c s.
           (if secType c = STK \<and> symbol c = ''QQQ''
              \<or> secType c = OPT \<and> symbol c = ''QQQ'' \<and> strike c = 5000
            then Inr [Some (c\<lparr>conId := 3\<rparr>)] else Inr [], s)),
      reqTickersAsync = (\<lambda>cs s. (Inr (map quote_for cs), s)),
      enhance_options_with_oi = (\<lambda>d cs s. (Inr d, s)),
      enable_oi_streaming = False,
      today = ''20240102''\<rparr>"

definition qqq_pick :: "int \<Rightarrow> string \<Rightarrow> contract option" where
  "qqq_pick k r =
     (if k = 5000
        then Some ((Option ''QQQ'' ''20240102'' 5000 r ''SMART'' ''USD'')\<lparr>conId := 3\<rparr>)
      else None)"

definition qqq_options :: "contract list" where
  "qqq_options =
     [(Option ''QQQ'' ''20240102'' 5000 ''C'' ''SMART'' ''USD'')\<lparr>conId := 3\<rparr>,
      (Option ''QQQ'' ''20240102'' 5000 ''P'' ''SMART'' ''USD'')\<lparr>conId := 3\<rparr>]"

definition qqq_stock :: contract where
  "qqq_stock = (Stock ''QQQ'' ''SMART'' ''USD'')\<lparr>conId := 3\<rparr>"

text \<open>Quotes without a usable price: a negative market price, and no price at all.\<close>

definition negative_quote :: ticker where
  "negative_quote =
     \<lparr>t_contract = Index ''SPX'' ''CBOE'' ''USD'', marketPrice = Fin (- 1), close = NaN,
      bid = Fin (- 1), ask = Fin (- 1), modelGreeks = None, impliedVolatility = None\<rparr>"

definition nan_quote :: ticker where
  "nan_quote =
     \<lparr>t_contract = Index ''SPX'' ''CBOE'' ''USD'', marketPrice = NaN, close = NaN,
      bid = NaN, ask = NaN, modelGreeks = None, impliedVolatility = None\<rparr>"

section \<open>Fallback qualification: the search order\<close>

lemma exchange_loop_first_success:
  "exchange_loop env mk exchanges w = first_success env (map mk exchanges) w"
  by (induction exchanges arbitrary: w) (auto split: prod.splits option.splits)

lemma first_success_append:
  "first_success env (xs @ ys) w =
     (case first_success env xs w of
        (Some c, w') \<Rightarrow> (Some c, w')
      | (None, w') \<Rightarrow> first_success env ys w')"
  by (induction xs arbitrary: w) (auto split: prod.splits option.splits)

text \<open>The nested loops are a search along the declared order.\<close>

lemma variant_loop_first_success:
  "variant_loop env exchange_map mk variations w =
     first_success env (combinations exchange_map mk variations) w"
  by (induction variations arbitrary: w)
     (auto simp: combinations_def first_success_append exchange_loop_first_success
           split: prod.splits option.splits)


lemma first_success_all_fail:
  assumes "\<forall>c s. accepted (fst (qualifyContractsAsync env c s)) = None"
  shows "first_success env cs w =
           (None, w\<lparr>ib_state := session_after env cs (ib_state w),
                    attempts := attempts w @ cs\<rparr>)"
  using assms
proof (induction cs arbitrary: w)
  case Nil
  then show ?case by simp
next
  case (Cons a cs)
  obtain r s' where q: "qualifyContractsAsync env a (ib_state w) = (r, s')"
    by (cases "qualifyContractsAsync env a (ib_state w)")
  with Cons.prems have "accepted r = None" by (metis fst_conv)
  with Cons q show ?case by (simp add: ib_qualify_def)
qed

lemma underlying_aliases:
  "dict_get underlying_symbol_variations s [s] = (if s = ''SPX'' then [''SPX'', ''SPXW''] else [s])"
  by (simp add: dict_get_def underlying_symbol_variations_def)

lemma option_aliases:
  "dict_get option_symbol_variations s [s] = (if s = ''SPX'' then [''SPXW'', ''SPX''] else [s])"
  by (simp add: dict_get_def option_symbol_variations_def)

lemma length_underlying_combinations:
  "length (underlying_combinations s) =
     length (dict_get underlying_symbol_variations s [s]) *
     length (dict_get underlying_exchange_map s [''SMART''])"
  by (simp add: underlying_combinations_def combinations_def underlying_aliases)
     (simp add: dict_get_def underlying_exchange_map_def)

lemma length_option_combinations:
  "length (option_combinations s e k r tc) =
     length (dict_get option_symbol_variations s [s]) *
     length (dict_get option_exchange_map s [''SMART''])"
  by (simp add: option_combinations_def combinations_def option_aliases)
     (simp add: dict_get_def option_exchange_map_def)

text \<open>
  The declared order, spelled out: for the underlying of each symbol of the alias table,
  and for an option of SPX.
\<close>

lemma underlying_combinations_table:
  "underlying_combinations ''RUT'' =
     [Index ''RUT'' ''SMART'' ''USD'', Index ''RUT'' ''CBOE'' ''USD'',
      Index ''RUT'' ''RUSSELL'' ''USD'']"
  "underlying_combinations ''SPY'' =
     [Stock ''SPY'' ''SMART'' ''USD'', Stock ''SPY'' ''CBOE'' ''USD'',
      Stock ''SPY'' ''ARCA'' ''USD'', Stock ''SPY'' ''BATS'' ''USD'']"
  "underlying_combinations ''QQQ'' =
     [Stock ''QQQ'' ''SMART'' ''USD'', Stock ''QQQ'' ''NASDAQ'' ''USD'',
      Stock ''QQQ'' ''CBOE'' ''USD'']"
  "underlying_combinations ''IWM'' =
     [Stock ''IWM'' ''SMART'' ''USD'', Stock ''IWM'' ''ARCA'' ''USD'',
      Stock ''IWM'' ''CBOE'' ''USD'']"
  "underlying_combinations ''VIX'' =
     [Index ''VIX'' ''CBOE'' ''USD'', Index ''VIX'' ''SMART'' ''USD'']"
  "underlying_combinations ''NDX'' =
     [Index ''NDX'' ''NASDAQ'' ''USD'', Index ''NDX'' ''SMART'' ''USD'']"
  by (simp_all add: underlying_combinations_def combinations_def underlying_aliases)
     (simp_all add: dict_get_def underlying_exchange_map_def underlying_descriptor_def)

lemma underlying_combinations_SPX:
  "underlying_combinations ''SPX'' =
     [Index ''SPX'' ''CBOE'' ''USD'', Index ''SPX'' ''SMART'' ''USD'',
      Index ''SPXW'' ''CBOE'' ''USD'', Index ''SPXW'' ''SMART'' ''USD'']"
  by (simp add: underlying_combinations_def combinations_def underlying_aliases)
     (simp add: dict_get_def underlying_exchange_map_def underlying_descriptor_def)

lemma option_combinations_SPX:
  "option_combinations ''SPX'' e k r None =
     [(Option ''SPXW'' e k r ''SMART'' ''USD'')\<lparr>tradingClass := ''SPXW''\<rparr>,
      (Option ''SPXW'' e k r ''CBOE'' ''USD'')\<lparr>tradingClass := ''SPXW''\<rparr>,
      Option ''SPX'' e k r ''SMART'' ''USD'', Option ''SPX'' e k r ''CBOE'' ''USD'']"
  by (simp add: option_combinations_def combinations_def option_aliases)
     (simp add: dict_get_def option_exchange_map_def option_descriptor_def)


lemma dead_session_fields:
  "get_ib_connection dead_session s = (True, s)"
  "qualifyContractsAsync dead_session c n =
     (if n mod 3 = 0 then Inl (Exception ''timeout'')
      else if n mod 3 = 1 then Inr []
      else Inr [Some (c\<lparr>conId := 0\<rparr>)], Suc n)"
  "enable_oi_streaming dead_session = False"
  by (simp_all add: dead_session_def)



text \<open>
  C2. Once connected, neither qualification function raises, whatever the session
  answers. With a session that fails every attempt, each returns \<open>None\<close> after submitting
  every combination once, in order; their number is the number of aliases of the symbol
  times the number of exchanges of the symbol.
\<close>

theorem qualify_exhaustion:
  assumes "ensure_connected env w = Inr w1"
  shows "(\<exists>res. qualify_underlying_with_fallback env symbol_name w = Inr res) \<and>
         (\<exists>res. qualify_option_with_fallback env symbol_name expiry_date k r trading_class w
                  = Inr res) \<and>
         ((\<forall>c s. accepted (fst (qualifyContractsAsync env c s)) = None) \<longrightarrow>
            qualify_underlying_with_fallback env symbol_name w =
              Inr (None,
                   w1\<lparr>ib_state := session_after env (underlying_combinations symbol_name)
                                     (ib_state w1),
                       attempts := attempts w1 @ underlying_combinations symbol_name\<rparr>) \<and>
            length (underlying_combinations symbol_name) =
              length (dict_get underlying_symbol_variations symbol_name [symbol_name]) *
              length (dict_get underlying_exchange_map symbol_name [''SMART'']) \<and>
            qualify_option_with_fallback env symbol_name expiry_date k r trading_class w =
              Inr (None,
                   w1\<lparr>ib_state := session_after env
                                     (option_combinations symbol_name expiry_date k r trading_class)
                                     (ib_state w1),
                       attempts := attempts w1 @
                         option_combinations symbol_name expiry_date k r trading_class\<rparr>) \<and>
            length (option_combinations symbol_name expiry_date k r trading_class) =
              length (dict_get option_symbol_variations symbol_name [symbol_name]) *
              length (dict_get option_exchange_map symbol_name [''SMART'']))"
proof -
  have a: "\<exists>res. qualify_underlying_with_fallback env symbol_name w = Inr res"
    using assms by (simp add: qualify_underlying_with_fallback_def)
  have b: "\<exists>res. qualify_option_with_fallback env symbol_name expiry_date k r trading_class w
                  = Inr res"
    using assms by (simp add: qualify_option_with_fallback_def)
  have c: "qualify_underlying_with_fallback env symbol_name w =
              Inr (None,
                   w1\<lparr>ib_state := session_after env (underlying_combinations symbol_name)
                                     (ib_state w1),
                       attempts := attempts w1 @ underlying_combinations symbol_name\<rparr>)"
    if "\<forall>c s. accepted (fst (qualifyContractsAsync env c s)) = None"
    using first_success_all_fail[OF that, of "underlying_combinations symbol_name" w1] assms
    by (simp add: qualify_underlying_with_fallback_def variant_loop_first_success
          underlying_combinations_def)
  have d: "qualify_option_with_fallback env symbol_name expiry_date k r trading_class w =
              Inr (None,
                   w1\<lparr>ib_state := session_after env
                                     (option_combinations symbol_name expiry_date k r trading_class)
                                     (ib_state w1),
                       attempts := attempts w1 @
                         option_combinations symbol_name expiry_date k r trading_class\<rparr>)"
    if "\<forall>c s. accepted (fst (qualifyContractsAsync env c s)) = None"
    using first_success_all_fail[OF that,
            of "option_combinations symbol_name expiry_date k r trading_class" w1] assms
    by (simp add: qualify_option_with_fallback_def variant_loop_first_success
          option_combinations_def)
  show ?thesis
    using a b c d length_underlying_combinations length_option_combinations by blast
qed

theorem qualify_exhaustion_witness:
  "qualify_underlying_with_fallback dead_session ''SPX'' fresh_counter =
     Inr (None,
          \<lparr>ib_state = 4, oi_fetcher = False,
           attempts = [Index ''SPX'' ''CBOE'' ''USD'', Index ''SPX'' ''SMART'' ''USD'',
                       Index ''SPXW'' ''CBOE'' ''USD'', Index ''SPXW'' ''SMART'' ''USD'']\<rparr>) \<and>
   qualify_option_with_fallback dead_session ''SPX'' ''20240102'' 5000 ''C'' None fresh_counter =
     Inr (None,
          \<lparr>ib_state = 4, oi_fetcher = False,
           attempts =
             [(Option ''SPXW'' ''20240102'' 5000 ''C'' ''SMART'' ''USD'')\<lparr>tradingClass := ''SPXW''\<rparr>,
              (Option ''SPXW'' ''20240102'' 5000 ''C'' ''CBOE'' ''USD'')\<lparr>tradingClass := ''SPXW''\<rparr>,
              Option ''SPX'' ''20240102'' 5000 ''C'' ''SMART'' ''USD'',
              Option ''SPX'' ''20240102'' 5000 ''C'' ''CBOE'' ''USD'']\<rparr>)"
proof -
  have c: "ensure_connected dead_session fresh_counter = Inr fresh_counter"
    by (simp add: ensure_connected_def dead_session_fields fresh_counter_def)
  have f: "\<forall>c s. accepted (fst (qualifyContractsAsync dead_session c s)) = None"
    by (simp add: dead_session_fields)
  show ?thesis
    using qualify_exhaustion[OF c, of "''SPX''" "''20240102''" 5000 "''C''" None] f
    by (simp add: underlying_combinations_SPX option_combinations_SPX)
       (simp add: dead_session_fields fresh_counter_def)
qed

section \<open>Float arithmetic: rounding error\<close>


lemma round_half_even_of_int: "round_half_even (of_int k) = k"
  by (simp add: round_half_even_def)
















section \<open>ATM strike and strike range\<close>




lemma round_to_double_1000: "round_to_double 1000 = Fin 1000"
  by code_simp

lemma atm_strike_placeholder: "atm_strike symbol_name (Fin 5000) = Inr 5000"
proof -
  have "round_half_even 1000 = 1000" "round_half_even 5000 = 5000"
    using round_half_even_of_int[of 1000] round_half_even_of_int[of 5000] by simp_all
  then show ?thesis by (simp add: atm_strike_def times_five_def round_to_double_1000)
qed



lemma length_strikes_to_check:
  "0 \<le> n \<Longrightarrow> length (strikes_to_check atm strike_inc n) = nat (2 * n + 1)"
  by (simp add: strikes_to_check_def)

lemma nth_strikes_to_check:
  "0 \<le> n \<Longrightarrow> i < nat (2 * n + 1) \<Longrightarrow>
     strikes_to_check atm strike_inc n ! i = atm + (int i - n) * strike_inc"
  by (simp add: strikes_to_check_def)

lemma sorted_strikes_to_check:
  "0 < strike_inc \<Longrightarrow> sorted_wrt (<) (strikes_to_check atm strike_inc n)"
  by (simp add: strikes_to_check_def sorted_wrt_map)

text \<open>
  C5. For a positive increment and a non-negative number of strikes per side, the strike
  range has \<open>2 * n + 1\<close> entries, the entry at position \<open>i\<close> is
  \<open>atm + (i - n) * increment\<close> (so the middle one is \<open>atm\<close> and neighbours differ by the
  increment), and the entries ascend strictly. With 5000, 5 and 2 the range is
  4990, 4995, 5000, 5005, 5010.
\<close>

theorem strikes_to_check_ladder:
  assumes "0 < strike_inc" and "0 \<le> n"
  shows "length (strikes_to_check atm strike_inc n) = nat (2 * n + 1) \<and>
         (\<forall>i. i < nat (2 * n + 1) \<longrightarrow>
              strikes_to_check atm strike_inc n ! i = atm + (int i - n) * strike_inc) \<and>
         (\<forall>i. Suc i < nat (2 * n + 1) \<longrightarrow>
              strikes_to_check atm strike_inc n ! Suc i - strikes_to_check atm strike_inc n ! i
                = strike_inc) \<and>
         strikes_to_check atm strike_inc n ! nat n = atm \<and>
         sorted_wrt (<) (strikes_to_check atm strike_inc n) \<and>
         strikes_to_check 5000 5 2 = [4990, 4995, 5000, 5005, 5010]"
proof -
  have step: "strikes_to_check atm strike_inc n ! Suc i - strikes_to_check atm strike_inc n ! i
                = strike_inc" if "Suc i < nat (2 * n + 1)" for i
  proof -
    have "i < nat (2 * n + 1)" using that by simp
    then show ?thesis
      using that assms(2) by (simp add: nth_strikes_to_check algebra_simps)
  qed
  have mid: "strikes_to_check atm strike_inc n ! nat n = atm"
    using assms(2) by (simp add: nth_strikes_to_check)
  have ex: "strikes_to_check 5000 5 2 = [4990, 4995, 5000, 5005, 5010]"
    by code_simp
  show ?thesis
    using assms step mid ex
    by (simp add: length_strikes_to_check nth_strikes_to_check sorted_strikes_to_check)
qed

theorem strikes_to_check_ladder_witness:
  "length (strikes_to_check 5000 5 20) = 41 \<and>
   strikes_to_check 5000 5 20 ! 20 = 5000 \<and>
   strikes_to_check 5000 5 20 ! 0 = 4900 \<and>
   strikes_to_check 5000 5 20 ! 40 = 5100 \<and>
   sorted_wrt (<) (strikes_to_check 5000 5 20)"
  using strikes_to_check_ladder[of 5 20 5000] by simp




text \<open>
  C7, as the code has it. When no quote comes back, or the price taken from the first
  quote is zero, negative or not a number, the spot price is the placeholder 5000 and the
  ATM strike of every symbol is 5000; no error is signalled.
\<close>

theorem placeholder_spot_price:
  assumes "tickers = [] \<or>
           (\<exists>t0 ts p. tickers = t0 # ts \<and>
              p = (if truthy (marketPrice t0) then marketPrice t0 else close t0) \<and>
              (\<not> truthy p \<or> le_zero p \<or> is_nan p))"
  shows "spot_price_of tickers = Fin 5000 \<and>
         atm_strike symbol_name (spot_price_of tickers) = Inr 5000"
proof -
  have "spot_price_of tickers = Fin 5000"
    using assms by (auto simp: spot_price_of_def Let_def)
  then show ?thesis by (simp add: atm_strike_placeholder)
qed

theorem placeholder_spot_price_witness:
  "spot_price_of [nan_quote] = Fin 5000 \<and>
   atm_strike ''SPY'' (spot_price_of [nan_quote]) = Inr 5000"
proof -
  have h: "[nan_quote] = [] \<or>
           (\<exists>t0 ts p. [nan_quote] = t0 # ts \<and>
              p = (if truthy (marketPrice t0) then marketPrice t0 else close t0) \<and>
              (\<not> truthy p \<or> le_zero p \<or> is_nan p))"
    by (simp add: nan_quote_def)
  from placeholder_spot_price[OF h, of "''SPY''"] show ?thesis by blast
qed

text \<open>
  C7 as stated fails: a quote with the negative market price -1 and a quote without any
  price both give the strike 5000.
\<close>

theorem unusable_spot_gives_strike:
  "atm_strike ''SPX'' (spot_price_of [negative_quote]) = Inr 5000 \<and>
   atm_strike ''SPX'' (spot_price_of [nan_quote]) = Inr 5000 \<and>
   atm_strike ''SPX'' (spot_price_of []) = Inr 5000"
  by (simp add: spot_price_of_def negative_quote_def nan_quote_def atm_strike_placeholder)

section \<open>Assembling the chain: the steps of one symbol\<close>

lemma symbols_loop_append:
  "symbols_loop env expiry_date (xs @ ys) acc w =
     (case symbols_loop env expiry_date xs acc w of
        Inl e \<Rightarrow> Inl e
      | Inr (acc', w') \<Rightarrow> symbols_loop env expiry_date ys acc' w')"
  by (induction xs arbitrary: acc w) (auto split: sum.splits)

text \<open>The accumulator only grows: the loop appends to what it was given.\<close>

lemma symbols_loop_acc:
  "symbols_loop env expiry_date symbols acc w =
     (case symbols_loop env expiry_date symbols [] w of
        Inl e \<Rightarrow> Inl e
      | Inr (recs, w') \<Rightarrow> Inr (acc @ recs, w'))"
proof (induction symbols arbitrary: acc w)
  case Nil
  then show ?case by simp
next
  case (Cons symbol_name symbols)
  show ?case
  proof (cases "symbol_step env expiry_date symbol_name w")
    case (Inl e)
    then show ?thesis by simp
  next
    case (Inr res)
    obtain recs w1 where res: "res = (recs, w1)" by (cases res)
    show ?thesis
      using Inr res Cons.IH[of "acc @ recs" w1] Cons.IH[of recs w1]
      by (simp split: sum.splits)
  qed
qed

lemma symbol_step_unqualified:
  "qualify_underlying_with_fallback env symbol_name w = Inr (None, w') \<Longrightarrow>
     symbol_step env expiry_date symbol_name w = Inr ([], w')"
  by (simp add: symbol_step_def)

text \<open>
  When the underlying qualifies, the spot quote arrives and the ATM strike is computed,
  the records of the symbol are those of the bulk quote step on the options that
  qualified.
\<close>

lemma symbol_step_quotes:
  assumes "qualify_underlying_with_fallback env sy w = Inr (Some uc, w1)"
    and "reqTickersAsync env [uc] (ib_state w1) = (Inr tks, s2)"
    and "atm_strike sy (spot_price_of tks) = Inr atm"
    and "strike_loop env sy expiry (Some (tradingClass uc))
           (strikes_to_check atm (strike_increment sy) num_strikes_each_side) []
           (w1\<lparr>ib_state := s2\<rparr>) = Inr (qs, w3)"
    and "qs \<noteq> []"
  shows "symbol_step env expiry sy w = quote_step env sy (spot_price_of tks) qs w3"
  by (simp add: symbol_step_def assms Let_def)

text \<open>
  If each option qualification returns what \<open>pick\<close> says, the loops collect the contracts
  found in the order of the strikes, the call before the put.
\<close>

lemma right_loop_collect:
  assumes "\<And>r w. \<exists>w'. qualify_option_with_fallback env sy e (of_int k) r tc w = Inr (pick r, w')"
  shows "\<exists>w'. right_loop env sy e k tc rs acc w = Inr (acc @ List.map_filter pick rs, w')"
proof (induction rs arbitrary: acc w)
  case Nil
  then show ?case by (simp add: List.map_filter_simps)
next
  case (Cons r rs)
  obtain w1 where q: "qualify_option_with_fallback env sy e (of_int k) r tc w = Inr (pick r, w1)"
    using assms by blast
  show ?case
  proof (cases "pick r")
    case None
    with q Cons.IH[of acc w1] show ?thesis by (simp add: List.map_filter_simps)
  next
    case (Some c)
    with q Cons.IH[of "acc @ [c]" w1] show ?thesis by (simp add: List.map_filter_simps)
  qed
qed

lemma strike_loop_collect:
  assumes "\<And>k r w. \<exists>w'. qualify_option_with_fallback env sy e (of_int k) r tc w
                          = Inr (pick k r, w')"
  shows "\<exists>w'. strike_loop env sy e tc ks acc w =
           Inr (acc @ concat (map (\<lambda>k. List.map_filter (pick k) [''C'', ''P'']) ks), w')"
proof (induction ks arbitrary: acc w)
  case Nil
  then show ?case by simp
next
  case (Cons k ks)
  obtain w1 where r: "right_loop env sy e k tc [''C'', ''P''] acc w =
                        Inr (acc @ List.map_filter (pick k) [''C'', ''P''], w1)"
    using right_loop_collect[of env sy e k tc "pick k" "[''C'', ''P'']" acc w] assms by blast
  from Cons.IH[of "acc @ List.map_filter (pick k) [''C'', ''P'']" w1] r
  show ?case by simp
qed

subsection \<open>Runs on the concrete sessions\<close>

lemma spot_quote_for: "spot_price_of [quote_for c] = Fin (20005 / 4)"
  by (simp add: spot_price_of_def quote_for_def)

lemma atm_SPX_quote: "atm_strike ''SPX'' (Fin (20005 / 4)) = Inr 5000"
  by code_simp

lemma SPX_strikes:
  "strikes_to_check 5000 (strike_increment ''SPX'') num_strikes_each_side =
     [4900, 4905, 4910, 4915, 4920, 4925, 4930, 4935, 4940, 4945, 4950, 4955, 4960, 4965,
      4970, 4975, 4980, 4985, 4990, 4995, 5000, 5005, 5010, 5015, 5020, 5025, 5030, 5035,
      5040, 5045, 5050, 5055, 5060, 5065, 5070, 5075, 5080, 5085, 5090, 5095, 5100]"
  by code_simp

text \<open>The session that knows the two aliases.\<close>

lemma mixed_fields:
  "get_ib_connection mixed_session s = (True, s)"
  "qualifyContractsAsync mixed_session c s =
     (if secType c = IND \<and> symbol c = ''SPX'' \<and> exchange c = ''CBOE''
         \<or> secType c = OPT \<and> symbol c = ''SPXW'' \<and> strike c = 5000 \<and> right c = ''C''
         \<or> secType c = OPT \<and> symbol c = ''SPX'' \<and> strike c = 5005 \<and> right c = ''C''
      then Inr [Some (c\<lparr>conId := 7\<rparr>)] else Inr [], s)"
  "reqTickersAsync mixed_session cs s = (Inr (map quote_for cs), s)"
  "enhance_options_with_oi mixed_session d cs s = (Inr d, s)"
  "enable_oi_streaming mixed_session = False"
  "today mixed_session = ''20240102''"
  by (simp_all add: mixed_session_def)

lemma mixed_connected: "ensure_connected mixed_session w = Inr w"
  by (simp add: ensure_connected_def mixed_fields)

lemma mixed_option:
  "\<exists>w'. qualify_option_with_fallback mixed_session ''SPX'' ''20240102'' (of_int k) r (Some []) w =
     Inr (mixed_pick k r, w')"
  by (simp add: qualify_option_with_fallback_def ensure_connected_def mixed_fields dict_get_def
        option_symbol_variations_def option_exchange_map_def option_descriptor_def
        ib_qualify_def Option_def Contract_def mixed_pick_def)

lemma mixed_underlying:
  "qualify_underlying_with_fallback mixed_session ''SPX'' w =
     Inr (Some ((Index ''SPX'' ''CBOE'' ''USD'')\<lparr>conId := 7\<rparr>),
          w\<lparr>attempts := attempts w @ [Index ''SPX'' ''CBOE'' ''USD'']\<rparr>)"
  by (simp add: qualify_underlying_with_fallback_def ensure_connected_def mixed_fields
        dict_get_def underlying_symbol_variations_def underlying_exchange_map_def
        underlying_descriptor_def ib_qualify_def Index_def Contract_def)

lemma mixed_unknown_underlying:
  "qualify_underlying_with_fallback mixed_session ''XYZ'' w =
     Inr (None, w\<lparr>attempts := attempts w @ [Stock ''XYZ'' ''SMART'' ''USD'']\<rparr>)"
  by (simp add: qualify_underlying_with_fallback_def ensure_connected_def mixed_fields
        dict_get_def underlying_symbol_variations_def underlying_exchange_map_def
        underlying_descriptor_def ib_qualify_def Stock_def Contract_def)

lemma mixed_qualified:
  "concat (map (\<lambda>k. List.map_filter (mixed_pick k) [''C'', ''P''])
     [4900, 4905, 4910, 4915, 4920, 4925, 4930, 4935, 4940, 4945, 4950, 4955, 4960, 4965,
      4970, 4975, 4980, 4985, 4990, 4995, 5000, 5005, 5010, 5015, 5020, 5025, 5030, 5035,
      5040, 5045, 5050, 5055, 5060, 5065, 5070, 5075, 5080, 5085, 5090, 5095, 5100]) =
     [(Option ''SPXW'' ''20240102'' 5000 ''C'' ''SMART'' ''USD'')
         \<lparr>conId := 7, tradingClass := ''SPXW''\<rparr>,
      (Option ''SPX'' ''20240102'' 5005 ''C'' ''SMART'' ''USD'')\<lparr>conId := 7\<rparr>]"
  by (simp add: mixed_pick_def List.map_filter_simps)

lemma mixed_SPX_step:
  "\<exists>w'. symbol_step mixed_session ''20240102'' ''SPX'' w = Inr (mixed_records, w')"
proof -
  define uc where "uc = (Index ''SPX'' ''CBOE'' ''USD'')\<lparr>conId := 7\<rparr>"
  define w1 where "w1 = w\<lparr>attempts := attempts w @ [Index ''SPX'' ''CBOE'' ''USD'']\<rparr>"
  define ks :: "int list" where "ks =
     [4900, 4905, 4910, 4915, 4920, 4925, 4930, 4935, 4940, 4945, 4950, 4955, 4960, 4965,
      4970, 4975, 4980, 4985, 4990, 4995, 5000, 5005, 5010, 5015, 5020, 5025, 5030, 5035,
      5040, 5045, 5050, 5055, 5060, 5065, 5070, 5075, 5080, 5085, 5090, 5095, 5100]"
  define qs where "qs =
     [(Option ''SPXW'' ''20240102'' 5000 ''C'' ''SMART'' ''USD'')
         \<lparr>conId := 7, tradingClass := ''SPXW''\<rparr>,
      (Option ''SPX'' ''20240102'' 5005 ''C'' ''SMART'' ''USD'')\<lparr>conId := 7\<rparr>]"
  have u: "qualify_underlying_with_fallback mixed_session ''SPX'' w = Inr (Some uc, w1)"
    by (simp add: mixed_underlying uc_def w1_def)
  have t: "reqTickersAsync mixed_session [uc] (ib_state w1) = (Inr [quote_for uc], ())"
    by (simp add: mixed_fields)
  have a: "atm_strike ''SPX'' (spot_price_of [quote_for uc]) = Inr 5000"
    by (simp only: spot_quote_for atm_SPX_quote)
  have tc: "tradingClass uc = []"
    by (simp add: uc_def Index_def Contract_def)
  have range: "strikes_to_check 5000 (strike_increment ''SPX'') num_strikes_each_side = ks"
    by (simp only: SPX_strikes ks_def)
  have found: "concat (map (\<lambda>k. List.map_filter (mixed_pick k) [''C'', ''P'']) ks) = qs"
    by (simp only: ks_def qs_def mixed_qualified)
  obtain w3 where
    "strike_loop mixed_session ''SPX'' ''20240102'' (Some []) ks [] (w1\<lparr>ib_state := ()\<rparr>) =
       Inr ([] @ concat (map (\<lambda>k. List.map_filter (mixed_pick k) [''C'', ''P'']) ks), w3)"
    using strike_loop_collect[of mixed_session "''SPX''" "''20240102''" "Some []" mixed_pick]
      mixed_option by blast
  then have s: "strike_loop mixed_session ''SPX'' ''20240102'' (Some (tradingClass uc))
           (strikes_to_check 5000 (strike_increment ''SPX'') num_strikes_each_side) []
           (w1\<lparr>ib_state := ()\<rparr>) = Inr (qs, w3)"
    by (simp only: tc range found append_Nil)
  have ne: "qs \<noteq> []" by (simp add: qs_def)
  have "quote_step mixed_session ''SPX'' (Fin (20005 / 4)) qs w3 =
          Inr (mixed_records, w3\<lparr>ib_state := ()\<rparr>)"
    by (simp add: quote_step_def oi_step_def mixed_fields qs_def Option_def
          Contract_def make_option_data_def quote_for_def implied_volatility_of_def
          gamma_of_def delta_of_def numeric_def mixed_records_def)
  with symbol_step_quotes[OF u t a s ne] show ?thesis by (simp add: spot_quote_for)
qed

lemma mixed_SPX_loop:
  "\<exists>w'. symbols_loop mixed_session ''20240102'' [''SPX''] [] w = Inr (mixed_records, w')"
proof -
  obtain w' where "symbol_step mixed_session ''20240102'' ''SPX'' w = Inr (mixed_records, w')"
    using mixed_SPX_step by blast
  then show ?thesis by simp
qed

lemma mixed_SPX_run:
  "\<exists>w'. get_atm_options mixed_session [''SPX''] 0 fresh = Inr (mixed_records, w')"
  using mixed_SPX_loop[of fresh]
  by (simp add: get_atm_options_def mixed_connected mixed_fields)

text \<open>
  The sessions that know the two SPXW options at 5000: up to the bulk quote request they
  behave alike.
\<close>

lemma knows_5000_option:
  assumes "qualifyContractsAsync env = knows_5000"
    and "get_ib_connection env = (\<lambda>s. (True, s))"
  shows "\<exists>w'. qualify_option_with_fallback env ''SPX'' ''20240102'' (of_int k) r (Some []) w =
           Inr (pick_5000 k r, w')"
  by (simp add: qualify_option_with_fallback_def ensure_connected_def assms knows_5000_def
        dict_get_def option_symbol_variations_def option_exchange_map_def
        option_descriptor_def ib_qualify_def Option_def Contract_def pick_5000_def)

lemma knows_5000_underlying:
  assumes "qualifyContractsAsync env = knows_5000"
    and "get_ib_connection env = (\<lambda>s. (True, s))"
  shows "\<exists>w'. qualify_underlying_with_fallback env ''SPX'' w = Inr (Some spx_index, w')"
  by (simp add: qualify_underlying_with_fallback_def ensure_connected_def assms knows_5000_def
        dict_get_def underlying_symbol_variations_def underlying_exchange_map_def
        underlying_descriptor_def ib_qualify_def Index_def Contract_def spx_index_def)

lemma qualified_5000:
  "concat (map (\<lambda>k. List.map_filter (pick_5000 k) [''C'', ''P''])
     [4900, 4905, 4910, 4915, 4920, 4925, 4930, 4935, 4940, 4945, 4950, 4955, 4960, 4965,
      4970, 4975, 4980, 4985, 4990, 4995, 5000, 5005, 5010, 5015, 5020, 5025, 5030, 5035,
      5040, 5045, 5050, 5055, 5060, 5065, 5070, 5075, 5080, 5085, 5090, 5095, 5100]) = options_5000"
  by (simp add: pick_5000_def List.map_filter_simps options_5000_def)

lemma knows_5000_path:
  assumes q: "qualifyContractsAsync env = knows_5000"
    and c: "get_ib_connection env = (\<lambda>s. (True, s))"
    and t: "\<And>s. reqTickersAsync env [spx_index] s = (Inr [quote_for spx_index], s)"
  shows "\<exists>w1 w3.
           qualify_underlying_with_fallback env ''SPX'' w = Inr (Some spx_index, w1) \<and>
           reqTickersAsync env [spx_index] (ib_state w1) = (Inr [quote_for spx_index], ()) \<and>
           atm_strike ''SPX'' (spot_price_of [quote_for spx_index]) = Inr 5000 \<and>
           strike_loop env ''SPX'' ''20240102'' (Some (tradingClass spx_index))
             (strikes_to_check 5000 (strike_increment ''SPX'') num_strikes_each_side) []
             (w1\<lparr>ib_state := ()\<rparr>) = Inr (options_5000, w3)"
proof -
  define ks :: "int list" where "ks =
     [4900, 4905, 4910, 4915, 4920, 4925, 4930, 4935, 4940, 4945, 4950, 4955, 4960, 4965,
      4970, 4975, 4980, 4985, 4990, 4995, 5000, 5005, 5010, 5015, 5020, 5025, 5030, 5035,
      5040, 5045, 5050, 5055, 5060, 5065, 5070, 5075, 5080, 5085, 5090, 5095, 5100]"
  obtain w1 where u: "qualify_underlying_with_fallback env ''SPX'' w = Inr (Some spx_index, w1)"
    using knows_5000_underlying[OF q c] by blast
  have a: "atm_strike ''SPX'' (spot_price_of [quote_for spx_index]) = Inr 5000"
    by (simp only: spot_quote_for atm_SPX_quote)
  have tc: "tradingClass spx_index = []"
    by (simp add: spx_index_def Index_def Contract_def)
  have range: "strikes_to_check 5000 (strike_increment ''SPX'') num_strikes_each_side = ks"
    by (simp only: SPX_strikes ks_def)
  have found: "concat (map (\<lambda>k. List.map_filter (pick_5000 k) [''C'', ''P'']) ks) = options_5000"
    by (simp only: ks_def qualified_5000)
  obtain w3 where
    "strike_loop env ''SPX'' ''20240102'' (Some []) ks [] (w1\<lparr>ib_state := ()\<rparr>) =
       Inr ([] @ concat (map (\<lambda>k. List.map_filter (pick_5000 k) [''C'', ''P'']) ks), w3)"
    using strike_loop_collect[of env "''SPX''" "''20240102''" "Some []" pick_5000]
      knows_5000_option[OF q c] by blast
  then have s: "strike_loop env ''SPX'' ''20240102'' (Some (tradingClass spx_index))
           (strikes_to_check 5000 (strike_increment ''SPX'') num_strikes_each_side) []
           (w1\<lparr>ib_state := ()\<rparr>) = Inr (options_5000, w3)"
    by (simp only: tc range found append_Nil)
  from u t[of "ib_state w1"] a s show ?thesis by auto
qed

section \<open>Assembling the chain: which failures escalate\<close>






subsection \<open>The sessions whose requests fail\<close>















section \<open>A symbol whose underlying does not qualify\<close>

text \<open>
  C4. A symbol whose underlying qualifies under no combination adds no record and raises
  nothing: the records of the symbols before it are kept, and the symbols after it are
  processed as usual, from the session state the failed search left, their records
  appended.
\<close>

theorem unqualified_symbol_is_skipped:
  assumes "ensure_connected env w = Inr w0"
    and "symbols_loop env (today env) pre [] w0 = Inr (acc, w1)"
    and "qualify_underlying_with_fallback env symbol_name w1 = Inr (None, w2)"
  shows "symbol_step env (today env) symbol_name w1 = Inr ([], w2) \<and>
         get_atm_options env (pre @ symbol_name # post) days_to_expiry w =
           (case symbols_loop env (today env) post [] w2 of
              Inl e \<Rightarrow> Inl e
            | Inr (recs, w3) \<Rightarrow> Inr (acc @ recs, w3))"
proof -
  have skip: "symbol_step env (today env) symbol_name w1 = Inr ([], w2)"
    using assms(3) by (rule symbol_step_unqualified)
  have "get_atm_options env (pre @ symbol_name # post) days_to_expiry w =
          symbols_loop env (today env) (pre @ symbol_name # post) [] w0"
    using assms(1) by (simp add: get_atm_options_def)
  also have "\<dots> = symbols_loop env (today env) post acc w2"
    using assms(2) skip by (simp add: symbols_loop_append)
  finally show ?thesis
    using skip symbols_loop_acc[of env "today env" post acc w2] by simp
qed

theorem unqualified_symbol_is_skipped_witness:
  "\<exists>w'. get_atm_options mixed_session [''XYZ'', ''SPX''] 0 fresh = Inr (mixed_records, w')"
proof -
  let ?w2 = "fresh\<lparr>attempts := attempts fresh @ [Stock ''XYZ'' ''SMART'' ''USD'']\<rparr>"
  have a: "ensure_connected mixed_session fresh = Inr fresh"
    by (rule mixed_connected)
  have b: "symbols_loop mixed_session (today mixed_session) [] [] fresh = Inr ([], fresh)"
    by simp
  have c: "qualify_underlying_with_fallback mixed_session ''XYZ'' fresh = Inr (None, ?w2)"
    by (rule mixed_unknown_underlying)
  obtain w' where d: "symbols_loop mixed_session ''20240102'' [''SPX''] [] ?w2
                        = Inr (mixed_records, w')"
    using mixed_SPX_loop by blast
  from unqualified_symbol_is_skipped[OF a b c, of "[''SPX'']" 0] d
  have "get_atm_options mixed_session [''XYZ'', ''SPX''] 0 fresh = Inr (mixed_records, w')"
    by (simp add: mixed_fields)
  then show ?thesis by blast
qed

section \<open>Open-interest enrichment\<close>

lemma ensure_connected_oi_fetcher:
  "ensure_connected env w = Inr w' \<Longrightarrow> enable_oi_streaming env \<or> oi_fetcher w \<Longrightarrow> oi_fetcher w'"
  by (auto simp: ensure_connected_def split: prod.splits if_splits)

lemma first_success_oi_fetcher:
  "first_success env cs w = (r, w') \<Longrightarrow> oi_fetcher w' = oi_fetcher w"
proof (induction cs arbitrary: w)
  case Nil
  then show ?case by simp
next
  case (Cons c cs)
  then show ?case
    by (auto simp: ib_qualify_def split: prod.splits option.splits)
qed

lemma qualify_underlying_oi_fetcher:
  assumes "qualify_underlying_with_fallback env sy w = Inr (r, w')"
    and "enable_oi_streaming env \<or> oi_fetcher w"
  shows "oi_fetcher w'"
proof -
  obtain w0 where c: "ensure_connected env w = Inr w0"
    and f: "first_success env (underlying_combinations sy) w0 = (r, w')"
    using assms(1)
    by (auto simp: qualify_underlying_with_fallback_def variant_loop_first_success
          underlying_combinations_def split: sum.splits)
  from ensure_connected_oi_fetcher[OF c assms(2)] first_success_oi_fetcher[OF f]
  show ?thesis by simp
qed

lemma qualify_option_oi_fetcher:
  assumes "qualify_option_with_fallback env sy e k r tc w = Inr (res, w')"
    and "oi_fetcher w"
  shows "oi_fetcher w'"
proof -
  obtain w0 where c: "ensure_connected env w = Inr w0"
    and f: "first_success env (option_combinations sy e k r tc) w0 = (res, w')"
    using assms(1)
    by (auto simp: qualify_option_with_fallback_def variant_loop_first_success
          option_combinations_def split: sum.splits)
  from ensure_connected_oi_fetcher[OF c] assms(2) first_success_oi_fetcher[OF f]
  show ?thesis by simp
qed

lemma right_loop_oi_fetcher:
  "right_loop env sy e k tc rs acc w = Inr (qs, w') \<Longrightarrow> oi_fetcher w \<Longrightarrow> oi_fetcher w'"
proof (induction rs arbitrary: acc w)
  case Nil
  then show ?case by simp
next
  case (Cons r rs)
  from Cons.prems(1) obtain q w1 where
    q: "qualify_option_with_fallback env sy e (of_int k) r tc w = Inr (q, w1)"
    and rest: "right_loop env sy e k tc rs
                 (case q of Some c \<Rightarrow> acc @ [c] | None \<Rightarrow> acc) w1 = Inr (qs, w')"
    by (auto split: sum.splits)
  from qualify_option_oi_fetcher[OF q Cons.prems(2)] Cons.IH[OF rest] show ?case by simp
qed

lemma strike_loop_oi_fetcher:
  "strike_loop env sy e tc ks acc w = Inr (qs, w') \<Longrightarrow> oi_fetcher w \<Longrightarrow> oi_fetcher w'"
proof (induction ks arbitrary: acc w)
  case Nil
  then show ?case by simp
next
  case (Cons k ks)
  from Cons.prems(1) obtain acc1 w1 where
    r: "right_loop env sy e k tc [''C'', ''P''] acc w = Inr (acc1, w1)"
    and rest: "strike_loop env sy e tc ks acc1 w1 = Inr (qs, w')"
    by (auto split: sum.splits)
  from right_loop_oi_fetcher[OF r Cons.prems(2)] Cons.IH[OF rest] show ?case by simp
qed

lemma make_option_data_open_interest:
  "od_open_interest (make_option_data symbol_name spot_price t) = 0"
  by (simp add: make_option_data_def)

lemma oi_failure_fields:
  "get_ib_connection oi_failure_session = (\<lambda>s. (True, s))"
  "qualifyContractsAsync oi_failure_session = knows_5000"
  "reqTickersAsync oi_failure_session cs s = (Inr (map quote_for cs), s)"
  "enhance_options_with_oi oi_failure_session d cs s = (Inl (Exception ''no open interest''), s)"
  "enable_oi_streaming oi_failure_session = True"
  "today oi_failure_session = ''20240102''"
  by (simp_all add: oi_failure_session_def)

text \<open>
  C8. With streaming enabled, when the underlying qualified, the spot quote arrived, the
  ATM strike was computed from it, some options qualified, the bulk quote returned quotes
  and the open-interest fetcher then raises: the symbol step returns (it does not raise)
  one record per quote, in the order of the quotes, each as built from its quote, with
  \<open>open_interest\<close> 0, and the loop over the symbols appends exactly these records and goes
  on. The fetcher is a parameter: it returns a list or raises, and is taken not to change
  the records it was handed before it raises. The log call of the source has no effect on
  the value and is not part of the model.
\<close>

theorem enrichment_failure_keeps_records:
  assumes "enable_oi_streaming env"
    and "qualify_underlying_with_fallback env sy w = Inr (Some uc, w1)"
    and "reqTickersAsync env [uc] (ib_state w1) = (Inr spot_tickers, s2)"
    and "atm_strike sy (spot_price_of spot_tickers) = Inr atm"
    and "strike_loop env sy e (Some (tradingClass uc))
           (strikes_to_check atm (strike_increment sy) num_strikes_each_side) []
           (w1\<lparr>ib_state := s2\<rparr>) = Inr (qs, w3)"
    and "qs \<noteq> []"
    and "reqTickersAsync env qs (ib_state w3) = (Inr tks, s4)"
    and "tks \<noteq> []"
    and "enhance_options_with_oi env (map (make_option_data sy (spot_price_of spot_tickers)) tks)
           (map t_contract tks) s4 = (Inl x, s5)"
  shows "symbol_step env e sy w =
           Inr (map (make_option_data sy (spot_price_of spot_tickers)) tks, w3\<lparr>ib_state := s5\<rparr>) \<and>
         symbols_loop env e (sy # rest) options_data w =
           symbols_loop env e rest
             (options_data @ map (make_option_data sy (spot_price_of spot_tickers)) tks)
             (w3\<lparr>ib_state := s5\<rparr>) \<and>
         length (map (make_option_data sy (spot_price_of spot_tickers)) tks) = length tks \<and>
         (\<forall>r \<in> set (map (make_option_data sy (spot_price_of spot_tickers)) tks).
            od_open_interest r = 0)"
proof -
  have "oi_fetcher w1"
    using qualify_underlying_oi_fetcher[OF assms(2)] assms(1) by simp
  then have "oi_fetcher (w1\<lparr>ib_state := s2\<rparr>)" by simp
  then have f: "oi_fetcher w3"
    using strike_loop_oi_fetcher[OF assms(5)] by simp
  have "quote_step env sy (spot_price_of spot_tickers) qs w3 =
          Inr (map (make_option_data sy (spot_price_of spot_tickers)) tks, w3\<lparr>ib_state := s5\<rparr>)"
    using f assms(1,7,8,9) by (simp add: quote_step_def oi_step_def)
  then have "symbol_step env e sy w =
          Inr (map (make_option_data sy (spot_price_of spot_tickers)) tks, w3\<lparr>ib_state := s5\<rparr>)"
    using symbol_step_quotes[OF assms(2,3,4,5,6)] by simp
  then show ?thesis
    by (simp add: make_option_data_open_interest)
qed

theorem enrichment_failure_keeps_records_witness:
  "\<exists>w'. symbol_step oi_failure_session ''20240102'' ''SPX'' fresh =
     Inr (map (make_option_data ''SPX'' (Fin (20005 / 4))) (map quote_for options_5000), w')"
proof -
  have spot: "\<And>s. reqTickersAsync oi_failure_session [spx_index] s
                = (Inr [quote_for spx_index], s)"
    by (simp add: oi_failure_fields)
  obtain w1 w3 where
    u: "qualify_underlying_with_fallback oi_failure_session ''SPX'' fresh
          = Inr (Some spx_index, w1)"
    and t: "reqTickersAsync oi_failure_session [spx_index] (ib_state w1)
          = (Inr [quote_for spx_index], ())"
    and a: "atm_strike ''SPX'' (spot_price_of [quote_for spx_index]) = Inr 5000"
    and s: "strike_loop oi_failure_session ''SPX'' ''20240102'' (Some (tradingClass spx_index))
             (strikes_to_check 5000 (strike_increment ''SPX'') num_strikes_each_side) []
             (w1\<lparr>ib_state := ()\<rparr>) = Inr (options_5000, w3)"
    using knows_5000_path[OF oi_failure_fields(2,1) spot, of fresh] by blast
  have en: "enable_oi_streaming oi_failure_session"
    by (simp add: oi_failure_fields)
  have ne: "options_5000 \<noteq> []" by (simp add: options_5000_def)
  have q: "reqTickersAsync oi_failure_session options_5000 (ib_state w3)
             = (Inr (map quote_for options_5000), ())"
    by (simp add: oi_failure_fields)
  have ne': "map quote_for options_5000 \<noteq> []" by (simp add: options_5000_def)
  have x: "enhance_options_with_oi oi_failure_session
             (map (make_option_data ''SPX'' (spot_price_of [quote_for spx_index]))
                (map quote_for options_5000))
             (map t_contract (map quote_for options_5000)) ()
             = (Inl (Exception ''no open interest''), ())"
    by (simp add: oi_failure_fields)
  from enrichment_failure_keeps_records[OF en u t a s ne q ne' x, of "[]" "[]"]
  have "symbol_step oi_failure_session ''20240102'' ''SPX'' fresh =
          Inr (map (make_option_data ''SPX'' (Fin (20005 / 4))) (map quote_for options_5000),
               w3\<lparr>ib_state := ()\<rparr>)"
    by (simp only: spot_quote_for)
  then show ?thesis by blast
qed

section \<open>The symbol and the alias of the records of a call\<close>

lemma accepted_Some: "accepted q = Some c \<Longrightarrow> \<exists>qs. q = Inr (Some c # qs)"
  by (erule accepted.elims) (auto split: if_splits)

text \<open>
  A contract a search returns is the first element of the session's answer to one of the
  descriptors of the list.
\<close>

lemma first_success_origin:
  "first_success env cs w = (Some c, w') \<Longrightarrow>
     \<exists>d \<in> set cs. \<exists>s qs. fst (qualifyContractsAsync env d s) = Inr (Some c # qs)"
proof (induction cs arbitrary: w)
  case Nil
  then show ?case by simp
next
  case (Cons d cs)
  obtain q s1 where q: "qualifyContractsAsync env d (ib_state w) = (q, s1)"
    by (cases "qualifyContractsAsync env d (ib_state w)")
  show ?case
  proof (cases "accepted q")
    case None
    with Cons.prems q
    have "first_success env cs (w\<lparr>ib_state := s1, attempts := attempts w @ [d]\<rparr>) = (Some c, w')"
      by (simp add: ib_qualify_def)
    from Cons.IH[OF this] show ?thesis by auto
  next
    case (Some c')
    with Cons.prems q have "c' = c" by (simp add: ib_qualify_def)
    with Some accepted_Some obtain qs where "q = Inr (Some c # qs)" by blast
    with q have "fst (qualifyContractsAsync env d (ib_state w)) = Inr (Some c # qs)" by simp
    then show ?thesis by auto
  qed
qed

lemma option_combinations_symbol:
  "d \<in> set (option_combinations sy e k r tc) \<Longrightarrow>
     symbol d \<in> set (dict_get option_symbol_variations sy [sy])"
  by (auto simp: option_combinations_def combinations_def option_descriptor_def Option_def
        Contract_def Let_def split: option.splits if_splits)

lemma single_option_alias:
  "sy \<noteq> ''SPX'' \<Longrightarrow> dict_get option_symbol_variations sy [sy] = [sy]"
  by (auto simp: dict_get_def option_symbol_variations_def)

lemma SPX_option_aliases: "dict_get option_symbol_variations ''SPX'' [''SPX''] = [''SPXW'', ''SPX'']"
  by (simp add: dict_get_def option_symbol_variations_def)

lemma qualify_option_alias:
  assumes echo: "\<forall>d s c qs. fst (qualifyContractsAsync env d s) = Inr (Some c # qs) \<longrightarrow>
                   symbol c = symbol d"
    and q: "qualify_option_with_fallback env sy e k r tc w = Inr (Some c, w')"
  shows "symbol c \<in> set (dict_get option_symbol_variations sy [sy])"
proof -
  from q obtain w0 where
    f: "first_success env (option_combinations sy e k r tc) w0 = (Some c, w')"
    by (auto simp: qualify_option_with_fallback_def variant_loop_first_success
          option_combinations_def split: sum.splits)
  from first_success_origin[OF f] obtain d s qs where
    d: "d \<in> set (option_combinations sy e k r tc)"
    and a: "fst (qualifyContractsAsync env d s) = Inr (Some c # qs)" by blast
  from echo a have "symbol c = symbol d" by blast
  with option_combinations_symbol[OF d] show ?thesis by simp
qed

lemma right_loop_alias:
  assumes echo: "\<forall>d s c qs. fst (qualifyContractsAsync env d s) = Inr (Some c # qs) \<longrightarrow>
                   symbol c = symbol d"
  shows "right_loop env sy e k tc rs acc w = Inr (qs, w') \<Longrightarrow>
         \<forall>c \<in> set acc. symbol c \<in> set (dict_get option_symbol_variations sy [sy]) \<Longrightarrow>
         \<forall>c \<in> set qs. symbol c \<in> set (dict_get option_symbol_variations sy [sy])"
proof (induction rs arbitrary: acc w)
  case Nil
  then show ?case by simp
next
  case (Cons r rs)
  from Cons.prems(1) obtain q w1 where
    q: "qualify_option_with_fallback env sy e (of_int k) r tc w = Inr (q, w1)"
    and rest: "right_loop env sy e k tc rs
                 (case q of Some c \<Rightarrow> acc @ [c] | None \<Rightarrow> acc) w1 = Inr (qs, w')"
    by (auto split: sum.splits)
  have "\<forall>c \<in> set (case q of Some c \<Rightarrow> acc @ [c] | None \<Rightarrow> acc).
          symbol c \<in> set (dict_get option_symbol_variations sy [sy])"
  proof (cases q)
    case None
    with Cons.prems(2) show ?thesis by simp
  next
    case (Some c)
    with q qualify_option_alias[OF echo] Cons.prems(2) show ?thesis by auto
  qed
  with Cons.IH[OF rest] show ?case by blast
qed

lemma strike_loop_alias:
  assumes echo: "\<forall>d s c qs. fst (qualifyContractsAsync env d s) = Inr (Some c # qs) \<longrightarrow>
                   symbol c = symbol d"
  shows "strike_loop env sy e tc ks acc w = Inr (qs, w') \<Longrightarrow>
         \<forall>c \<in> set acc. symbol c \<in> set (dict_get option_symbol_variations sy [sy]) \<Longrightarrow>
         \<forall>c \<in> set qs. symbol c \<in> set (dict_get option_symbol_variations sy [sy])"
proof (induction ks arbitrary: acc w)
  case Nil
  then show ?case by simp
next
  case (Cons k ks)
  from Cons.prems(1) obtain acc1 w1 where
    r: "right_loop env sy e k tc [''C'', ''P''] acc w = Inr (acc1, w1)"
    and rest: "strike_loop env sy e tc ks acc1 w1 = Inr (qs, w')"
    by (auto split: sum.splits)
  from right_loop_alias[OF echo r Cons.prems(2)] Cons.IH[OF rest] show ?case by blast
qed

lemma quote_step_records:
  assumes quotes: "\<forall>cs s tks. fst (reqTickersAsync env cs s) = Inr tks \<longrightarrow>
                     (\<forall>t \<in> set tks. t_contract t \<in> set cs)"
    and keeps: "\<forall>d cs s d'. fst (enhance_options_with_oi env d cs s) = Inr d' \<longrightarrow>
                  (\<forall>r' \<in> set d'. \<exists>r \<in> set d. od_symbol r' = od_symbol r \<and>
                     od_underlying_symbol r' = od_underlying_symbol r)"
    and run: "quote_step env sy spot_price qs w = Inr (recs, w')"
    and qs: "\<forall>c \<in> set qs. symbol c \<in> A"
  shows "\<forall>r \<in> set recs. od_symbol r = sy \<and> od_underlying_symbol r \<in> A"
proof -
  obtain tks s1 where t: "reqTickersAsync env qs (ib_state w) = (Inr tks, s1)"
    using run by (auto simp: quote_step_def split: prod.splits sum.splits)
  then have "fst (reqTickersAsync env qs (ib_state w)) = Inr tks" by simp
  with quotes have among: "\<forall>t \<in> set tks. t_contract t \<in> set qs" by blast
  let ?data = "map (make_option_data sy spot_price) tks"
  have built: "\<forall>r \<in> set ?data. od_symbol r = sy \<and> od_underlying_symbol r \<in> A"
    using among qs by (auto simp: make_option_data_def)
  from run t have o: "fst (oi_step env ?data (map t_contract tks) (w\<lparr>ib_state := s1\<rparr>)) = recs"
    by (simp add: quote_step_def)
  show ?thesis
  proof (cases "oi_fetcher w \<and> enable_oi_streaming env \<and> ?data \<noteq> []")
    case False
    with o have "recs = ?data" by (auto simp: oi_step_def)
    with built show ?thesis by simp
  next
    case True
    obtain x s2 where x: "enhance_options_with_oi env ?data (map t_contract tks) s1 = (x, s2)"
      by (cases "enhance_options_with_oi env ?data (map t_contract tks) s1")
    show ?thesis
    proof (cases x)
      case (Inl e)
      with o True x have "recs = ?data" by (simp add: oi_step_def)
      with built show ?thesis by simp
    next
      case (Inr d')
      with o True x have "recs = d'" by (simp add: oi_step_def)
      moreover from keeps x Inr
      have "\<forall>r' \<in> set d'. \<exists>r \<in> set ?data. od_symbol r' = od_symbol r \<and>
               od_underlying_symbol r' = od_underlying_symbol r"
        by (metis fst_conv)
      ultimately show ?thesis using built by metis
    qed
  qed
qed

lemma symbol_step_records:
  assumes echo: "\<forall>d s c qs. fst (qualifyContractsAsync env d s) = Inr (Some c # qs) \<longrightarrow>
                   symbol c = symbol d"
    and quotes: "\<forall>cs s tks. fst (reqTickersAsync env cs s) = Inr tks \<longrightarrow>
                     (\<forall>t \<in> set tks. t_contract t \<in> set cs)"
    and keeps: "\<forall>d cs s d'. fst (enhance_options_with_oi env d cs s) = Inr d' \<longrightarrow>
                  (\<forall>r' \<in> set d'. \<exists>r \<in> set d. od_symbol r' = od_symbol r \<and>
                     od_underlying_symbol r' = od_underlying_symbol r)"
    and run: "symbol_step env e sy w = Inr (recs, w')"
  shows "\<forall>r \<in> set recs. od_symbol r = sy \<and>
           od_underlying_symbol r \<in> set (dict_get option_symbol_variations sy [sy])"
proof -
  from run have "recs = [] \<or>
      (\<exists>tc ks w2 qs w3 spot_price.
         strike_loop env sy e tc ks [] w2 = Inr (qs, w3) \<and>
         quote_step env sy spot_price qs w3 = Inr (recs, w'))"
    by (auto simp: symbol_step_def Let_def
          split: sum.splits prod.splits option.splits if_splits)
  then show ?thesis
  proof
    assume "recs = []"
    then show ?thesis by simp
  next
    assume "\<exists>tc ks w2 qs w3 spot_price.
         strike_loop env sy e tc ks [] w2 = Inr (qs, w3) \<and>
         quote_step env sy spot_price qs w3 = Inr (recs, w')"
    then obtain tc ks w2 qs w3 spot_price where
      s: "strike_loop env sy e tc ks [] w2 = Inr (qs, w3)"
      and q: "quote_step env sy spot_price qs w3 = Inr (recs, w')" by blast
    have "\<forall>c \<in> set qs. symbol c \<in> set (dict_get option_symbol_variations sy [sy])"
      using strike_loop_alias[OF echo s] by simp
    from quote_step_records[OF quotes keeps q this] show ?thesis .
  qed
qed

lemma symbols_loop_records:
  assumes echo: "\<forall>d s c qs. fst (qualifyContractsAsync env d s) = Inr (Some c # qs) \<longrightarrow>
                   symbol c = symbol d"
    and quotes: "\<forall>cs s tks. fst (reqTickersAsync env cs s) = Inr tks \<longrightarrow>
                     (\<forall>t \<in> set tks. t_contract t \<in> set cs)"
    and keeps: "\<forall>d cs s d'. fst (enhance_options_with_oi env d cs s) = Inr d' \<longrightarrow>
                  (\<forall>r' \<in> set d'. \<exists>r \<in> set d. od_symbol r' = od_symbol r \<and>
                     od_underlying_symbol r' = od_underlying_symbol r)"
  shows "symbols_loop env e symbols acc w = Inr (recs, w') \<Longrightarrow>
         set symbols \<subseteq> S \<Longrightarrow>
         \<forall>r \<in> set acc. od_symbol r \<in> S \<and>
           od_underlying_symbol r \<in>
             set (dict_get option_symbol_variations (od_symbol r) [od_symbol r]) \<Longrightarrow>
         \<forall>r \<in> set recs. od_symbol r \<in> S \<and>
           od_underlying_symbol r \<in>
             set (dict_get option_symbol_variations (od_symbol r) [od_symbol r])"
proof (induction symbols arbitrary: acc w)
  case Nil
  then show ?case by simp
next
  case (Cons sy symbols)
  from Cons.prems(1) obtain r1 w1 where
    s: "symbol_step env e sy w = Inr (r1, w1)"
    and rest: "symbols_loop env e symbols (acc @ r1) w1 = Inr (recs, w')"
    by (auto split: sum.splits)
  from symbol_step_records[OF echo quotes keeps s] Cons.prems(2)
  have "\<forall>r \<in> set r1. od_symbol r \<in> S \<and>
           od_underlying_symbol r \<in>
             set (dict_get option_symbol_variations (od_symbol r) [od_symbol r])"
    by auto
  with Cons.prems(3)
  have "\<forall>r \<in> set (acc @ r1). od_symbol r \<in> S \<and>
           od_underlying_symbol r \<in>
             set (dict_get option_symbol_variations (od_symbol r) [od_symbol r])"
    by auto
  moreover from Cons.prems(2) have "set symbols \<subseteq> S" by simp
  ultimately show ?case using Cons.IH[OF rest] by blast
qed

subsection \<open>A run for a symbol with one alias\<close>

lemma qqq_fields:
  "get_ib_connection qqq_session s = (True, s)"
  "qualifyContractsAsync qqq_session c s =
     (if secType c = STK \<and> symbol c = ''QQQ''
         \<or> secType c = OPT \<and> symbol c = ''QQQ'' \<and> strike c = 5000
      then Inr [Some (c\<lparr>conId := 3\<rparr>)] else Inr [], s)"
  "reqTickersAsync qqq_session cs s = (Inr (map quote_for cs), s)"
  "enhance_options_with_oi qqq_session d cs s = (Inr d, s)"
  "enable_oi_streaming qqq_session = False"
  "today qqq_session = ''20240102''"
  by (simp_all add: qqq_session_def)

lemma qqq_connected: "ensure_connected qqq_session w = Inr w"
  by (simp add: ensure_connected_def qqq_fields)

lemma qqq_option:
  "\<exists>w'. qualify_option_with_fallback qqq_session ''QQQ'' ''20240102'' (of_int k) r (Some []) w =
     Inr (qqq_pick k r, w')"
  by (simp add: qualify_option_with_fallback_def ensure_connected_def qqq_fields dict_get_def
        option_symbol_variations_def option_exchange_map_def option_descriptor_def
        ib_qualify_def Option_def Contract_def qqq_pick_def)

lemma qqq_underlying:
  "\<exists>w'. qualify_underlying_with_fallback qqq_session ''QQQ'' w = Inr (Some qqq_stock, w')"
  by (simp add: qualify_underlying_with_fallback_def ensure_connected_def qqq_fields
        dict_get_def underlying_symbol_variations_def underlying_exchange_map_def
        underlying_descriptor_def ib_qualify_def Stock_def Contract_def qqq_stock_def)

lemma atm_QQQ_quote: "atm_strike ''QQQ'' (Fin (20005 / 4)) = Inr 5000"
  by code_simp

lemma QQQ_strikes:
  "strikes_to_check 5000 (strike_increment ''QQQ'') num_strikes_each_side =
     [4980, 4981, 4982, 4983, 4984, 4985, 4986, 4987, 4988, 4989, 4990, 4991, 4992, 4993,
      4994, 4995, 4996, 4997, 4998, 4999, 5000, 5001, 5002, 5003, 5004, 5005, 5006, 5007,
      5008, 5009, 5010, 5011, 5012, 5013, 5014, 5015, 5016, 5017, 5018, 5019, 5020]"
  by code_simp

lemma qqq_qualified:
  "concat (map (\<lambda>k. List.map_filter (qqq_pick k) [''C'', ''P''])
     [4980, 4981, 4982, 4983, 4984, 4985, 4986, 4987, 4988, 4989, 4990, 4991, 4992, 4993,
      4994, 4995, 4996, 4997, 4998, 4999, 5000, 5001, 5002, 5003, 5004, 5005, 5006, 5007,
      5008, 5009, 5010, 5011, 5012, 5013, 5014, 5015, 5016, 5017, 5018, 5019, 5020]) =
     qqq_options"
  by (simp add: qqq_pick_def List.map_filter_simps qqq_options_def)

lemma qqq_run:
  "\<exists>w'. get_atm_options qqq_session [''QQQ''] 0 fresh =
     Inr (map (make_option_data ''QQQ'' (Fin (20005 / 4))) (map quote_for qqq_options), w')"
proof -
  define ks :: "int list" where "ks =
     [4980, 4981, 4982, 4983, 4984, 4985, 4986, 4987, 4988, 4989, 4990, 4991, 4992, 4993,
      4994, 4995, 4996, 4997, 4998, 4999, 5000, 5001, 5002, 5003, 5004, 5005, 5006, 5007,
      5008, 5009, 5010, 5011, 5012, 5013, 5014, 5015, 5016, 5017, 5018, 5019, 5020]"
  obtain w1 where
    u: "qualify_underlying_with_fallback qqq_session ''QQQ'' fresh = Inr (Some qqq_stock, w1)"
    using qqq_underlying by blast
  have t: "reqTickersAsync qqq_session [qqq_stock] (ib_state w1) = (Inr [quote_for qqq_stock], ())"
    by (simp add: qqq_fields)
  have a: "atm_strike ''QQQ'' (spot_price_of [quote_for qqq_stock]) = Inr 5000"
    by (simp only: spot_quote_for atm_QQQ_quote)
  have tc: "tradingClass qqq_stock = []"
    by (simp add: qqq_stock_def Stock_def Contract_def)
  have range: "strikes_to_check 5000 (strike_increment ''QQQ'') num_strikes_each_side = ks"
    by (simp only: QQQ_strikes ks_def)
  have found: "concat (map (\<lambda>k. List.map_filter (qqq_pick k) [''C'', ''P'']) ks) = qqq_options"
    by (simp only: ks_def qqq_qualified)
  obtain w3 where
    "strike_loop qqq_session ''QQQ'' ''20240102'' (Some []) ks [] (w1\<lparr>ib_state := ()\<rparr>) =
       Inr ([] @ concat (map (\<lambda>k. List.map_filter (qqq_pick k) [''C'', ''P'']) ks), w3)"
    using strike_loop_collect[of qqq_session "''QQQ''" "''20240102''" "Some []" qqq_pick]
      qqq_option by blast
  then have s: "strike_loop qqq_session ''QQQ'' ''20240102'' (Some (tradingClass qqq_stock))
           (strikes_to_check 5000 (strike_increment ''QQQ'') num_strikes_each_side) []
           (w1\<lparr>ib_state := ()\<rparr>) = Inr (qqq_options, w3)"
    by (simp only: tc range found append_Nil)
  have ne: "qqq_options \<noteq> []" by (simp add: qqq_options_def)
  have "quote_step qqq_session ''QQQ'' (Fin (20005 / 4)) qqq_options w3 =
          Inr (map (make_option_data ''QQQ'' (Fin (20005 / 4))) (map quote_for qqq_options),
               w3\<lparr>ib_state := ()\<rparr>)"
    by (simp add: quote_step_def oi_step_def qqq_fields)
  with symbol_step_quotes[OF u t a s ne]
  have "symbol_step qqq_session ''20240102'' ''QQQ'' fresh =
          Inr (map (make_option_data ''QQQ'' (Fin (20005 / 4))) (map quote_for qqq_options),
               w3\<lparr>ib_state := ()\<rparr>)"
    by (simp add: spot_quote_for)
  then show ?thesis
    by (simp add: get_atm_options_def qqq_connected qqq_fields)
qed

text \<open>
  C9, as the code has it. Take a session that answers a qualification request with a
  contract bearing the symbol it was asked for, a quote request with quotes for
  contracts among those requested, and an open-interest fetcher that keeps \<open>symbol\<close> and
  \<open>underlying_symbol\<close> of the records it is given. Then in the records of one call of
  \<open>get_atm_options\<close>: the \<open>symbol\<close> of every record is one of the symbols requested, and
  its \<open>underlying_symbol\<close>, the alias under which the option qualified, is one of the
  option aliases the table gives for that symbol. For every symbol other than SPX the
  table gives one alias, the symbol itself, so all records of such a symbol carry the same
  alias. For SPX the alias is one of SPXW and SPX, found by a separate search for every
  strike and right, and the records of one call may carry both. The exchange under which
  an option qualified is not part of a record, and nothing is said of the spot price: a
  symbol listed twice is quoted twice.
\<close>

theorem record_aliases_within_call:
  assumes "\<forall>d s c qs. fst (qualifyContractsAsync env d s) = Inr (Some c # qs) \<longrightarrow>
             symbol c = symbol d"
    and "\<forall>cs s tks. fst (reqTickersAsync env cs s) = Inr tks \<longrightarrow>
           (\<forall>t \<in> set tks. t_contract t \<in> set cs)"
    and "\<forall>d cs s d'. fst (enhance_options_with_oi env d cs s) = Inr d' \<longrightarrow>
           (\<forall>r' \<in> set d'. \<exists>r \<in> set d. od_symbol r' = od_symbol r \<and>
              od_underlying_symbol r' = od_underlying_symbol r)"
    and "get_atm_options env symbols days_to_expiry w = Inr (recs, w')"
  shows "(\<forall>r \<in> set recs. od_symbol r \<in> set symbols \<and>
            od_underlying_symbol r \<in>
              set (dict_get option_symbol_variations (od_symbol r) [od_symbol r])) \<and>
         (\<forall>r \<in> set recs. od_symbol r \<noteq> ''SPX'' \<longrightarrow> od_underlying_symbol r = od_symbol r) \<and>
         (\<forall>r \<in> set recs. od_symbol r = ''SPX'' \<longrightarrow>
            od_underlying_symbol r = ''SPXW'' \<or> od_underlying_symbol r = ''SPX'') \<and>
         (\<forall>r \<in> set recs. \<forall>r' \<in> set recs.
            od_symbol r = od_symbol r' \<and> od_symbol r \<noteq> ''SPX'' \<longrightarrow>
              od_underlying_symbol r = od_underlying_symbol r')"
proof -
  have main: "\<forall>r \<in> set recs. od_symbol r \<in> set symbols \<and>
            od_underlying_symbol r \<in>
              set (dict_get option_symbol_variations (od_symbol r) [od_symbol r])"
  proof (cases "symbols = []")
    case True
    with assms(4) have "recs = []"
      by (auto simp: get_atm_options_def split: sum.splits)
    then show ?thesis by simp
  next
    case False
    with assms(4) obtain w0 where
      "symbols_loop env (today env) symbols [] w0 = Inr (recs, w')"
      by (auto simp: get_atm_options_def split: sum.splits)
    from symbols_loop_records[OF assms(1,2,3) this, of "set symbols"] show ?thesis by simp
  qed
  have one: "od_underlying_symbol r = od_symbol r"
    if "r \<in> set recs" and "od_symbol r \<noteq> ''SPX''" for r
    using main that single_option_alias[of "od_symbol r"] by auto
  have two: "od_underlying_symbol r = ''SPXW'' \<or> od_underlying_symbol r = ''SPX''"
    if "r \<in> set recs" and "od_symbol r = ''SPX''" for r
    using main that SPX_option_aliases by auto
  have same: "od_underlying_symbol r = od_underlying_symbol r'"
    if "r \<in> set recs" and "r' \<in> set recs" and "od_symbol r = od_symbol r'"
      and "od_symbol r \<noteq> ''SPX''" for r r'
    using one[of r] one[of r'] that by simp
  from main one two same show ?thesis by blast
qed

theorem record_aliases_within_call_witness:
  "\<exists>recs w'. get_atm_options qqq_session [''QQQ''] 0 fresh = Inr (recs, w') \<and>
     length recs = 2 \<and>
     list_all (\<lambda>r. od_symbol r = ''QQQ'' \<and> od_underlying_symbol r = ''QQQ'') recs"
proof -
  define recs where
    "recs = map (make_option_data ''QQQ'' (Fin (20005 / 4))) (map quote_for qqq_options)"
  obtain w' where r: "get_atm_options qqq_session [''QQQ''] 0 fresh = Inr (recs, w')"
    using qqq_run unfolding recs_def by blast
  have echo: "\<forall>d s c qs. fst (qualifyContractsAsync qqq_session d s) = Inr (Some c # qs) \<longrightarrow>
                symbol c = symbol d"
    by (auto simp: qqq_fields split: if_splits)
  have quotes: "\<forall>cs s tks. fst (reqTickersAsync qqq_session cs s) = Inr tks \<longrightarrow>
                  (\<forall>t \<in> set tks. t_contract t \<in> set cs)"
    by (auto simp: qqq_fields quote_for_def)
  have keeps: "\<forall>d cs s d'. fst (enhance_options_with_oi qqq_session d cs s) = Inr d' \<longrightarrow>
                 (\<forall>r' \<in> set d'. \<exists>r \<in> set d. od_symbol r' = od_symbol r \<and>
                    od_underlying_symbol r' = od_underlying_symbol r)"
    by (auto simp: qqq_fields)
  from record_aliases_within_call[OF echo quotes keeps r]
  have "\<forall>r \<in> set recs. od_symbol r \<in> set [''QQQ''] \<and>
          (od_symbol r \<noteq> ''SPX'' \<longrightarrow> od_underlying_symbol r = od_symbol r)"
    by blast
  then have "list_all (\<lambda>r. od_symbol r = ''QQQ'' \<and> od_underlying_symbol r = ''QQQ'') recs"
    by (auto simp: list_all_iff)
  moreover have "length recs = 2" by (simp add: recs_def qqq_options_def)
  ultimately show ?thesis using r by blast
qed

text \<open>
  C9 as stated fails: in one call for SPX, against a session that knows the 5000 call
  only as SPXW and the 5005 call only as SPX, the two records carry different aliases.
\<close>

theorem aliases_mixed_in_one_call:
  "(\<exists>w'. get_atm_options mixed_session [''SPX''] 0 fresh = Inr (mixed_records, w')) \<and>
   map od_symbol mixed_records = [''SPX'', ''SPX''] \<and>
   map od_underlying_symbol mixed_records = [''SPXW'', ''SPX'']"
  using mixed_SPX_run by (simp add: mixed_records_def)

section \<open>The expiry of the options requested\<close>

lemma extends_withI:
  "attempts w' = attempts w @ new \<Longrightarrow> list_all P new \<Longrightarrow> extends_with P w w'"
  by (simp add: extends_with_def)

lemma extends_withD:
  assumes "extends_with P w w'"
  shows "\<exists>new. attempts w' = attempts w @ new \<and> list_all P new"
proof -
  let ?n = "length (attempts w)"
  have "attempts w' = take ?n (attempts w') @ drop ?n (attempts w')" by simp
  with assms show ?thesis unfolding extends_with_def by metis
qed

lemma extends_with_same: "attempts w' = attempts w \<Longrightarrow> extends_with P w w'"
  by (simp add: extends_with_def)

lemma extends_with_trans:
  assumes "extends_with P w w1" and "extends_with P w1 w2"
  shows "extends_with P w w2"
proof -
  from extends_withD[OF assms(1)] obtain n1 where
    a: "attempts w1 = attempts w @ n1" "list_all P n1" by blast
  from extends_withD[OF assms(2)] obtain n2 where
    b: "attempts w2 = attempts w1 @ n2" "list_all P n2" by blast
  from a b have "attempts w2 = attempts w @ (n1 @ n2)" "list_all P (n1 @ n2)" by simp_all
  then show ?thesis by (rule extends_withI)
qed

lemma first_success_extends:
  "list_all P cs \<Longrightarrow> first_success env cs w = (r, w') \<Longrightarrow> extends_with P w w'"
proof (induction cs arbitrary: w)
  case Nil
  then show ?case by (simp add: extends_with_same)
next
  case (Cons c cs)
  obtain q s1 where q: "qualifyContractsAsync env c (ib_state w) = (q, s1)"
    by (cases "qualifyContractsAsync env c (ib_state w)")
  let ?w1 = "w\<lparr>ib_state := s1, attempts := attempts w @ [c]\<rparr>"
  have one: "extends_with P w ?w1"
    using Cons.prems(1) by (intro extends_withI[of _ _ "[c]"]) simp_all
  show ?case
  proof (cases "accepted q")
    case None
    with Cons.prems(2) q have "first_success env cs ?w1 = (r, w')"
      by (simp add: ib_qualify_def)
    with Cons.IH[of ?w1] Cons.prems(1) have "extends_with P ?w1 w'" by simp
    with one show ?thesis by (rule extends_with_trans)
  next
    case (Some c')
    with Cons.prems(2) q have "w' = ?w1" by (simp add: ib_qualify_def)
    with one show ?thesis by simp
  qed
qed

lemma ensure_connected_attempts:
  "ensure_connected env w = Inr w' \<Longrightarrow> attempts w' = attempts w"
  by (auto simp: ensure_connected_def split: prod.splits if_splits)

lemma underlying_combinations_dated: "list_all (dated d) (underlying_combinations sy)"
  by (simp add: underlying_combinations_def combinations_def list_all_iff dated_def
        underlying_descriptor_def Index_def Stock_def Contract_def)

lemma option_combinations_dated: "list_all (dated e) (option_combinations sy e k r tc)"
  by (simp add: option_combinations_def combinations_def list_all_iff dated_def
        option_descriptor_def Option_def Contract_def Let_def split: option.splits)

lemma qualify_underlying_extends:
  assumes "qualify_underlying_with_fallback env sy w = Inr (r, w')"
  shows "extends_with (dated d) w w'"
proof -
  obtain w0 where c: "ensure_connected env w = Inr w0"
    and f: "first_success env (underlying_combinations sy) w0 = (r, w')"
    using assms
    by (auto simp: qualify_underlying_with_fallback_def variant_loop_first_success
          underlying_combinations_def split: sum.splits)
  have "extends_with (dated d) w w0"
    using ensure_connected_attempts[OF c] by (rule extends_with_same)
  moreover have "extends_with (dated d) w0 w'"
    using underlying_combinations_dated f by (rule first_success_extends)
  ultimately show ?thesis by (rule extends_with_trans)
qed

lemma qualify_option_extends:
  assumes "qualify_option_with_fallback env sy e k r tc w = Inr (res, w')"
  shows "extends_with (dated e) w w'"
proof -
  obtain w0 where c: "ensure_connected env w = Inr w0"
    and f: "first_success env (option_combinations sy e k r tc) w0 = (res, w')"
    using assms
    by (auto simp: qualify_option_with_fallback_def variant_loop_first_success
          option_combinations_def split: sum.splits)
  have "extends_with (dated e) w w0"
    using ensure_connected_attempts[OF c] by (rule extends_with_same)
  moreover have "extends_with (dated e) w0 w'"
    using option_combinations_dated f by (rule first_success_extends)
  ultimately show ?thesis by (rule extends_with_trans)
qed

lemma right_loop_extends:
  "right_loop env sy e k tc rs acc w = Inr (qs, w') \<Longrightarrow> extends_with (dated e) w w'"
proof (induction rs arbitrary: acc w)
  case Nil
  then show ?case by (simp add: extends_with_same)
next
  case (Cons r rs)
  from Cons.prems obtain q w1 where
    q: "qualify_option_with_fallback env sy e (of_int k) r tc w = Inr (q, w1)"
    and rest: "right_loop env sy e k tc rs
                 (case q of Some c \<Rightarrow> acc @ [c] | None \<Rightarrow> acc) w1 = Inr (qs, w')"
    by (auto split: sum.splits)
  from qualify_option_extends[OF q] Cons.IH[OF rest] show ?case
    by (rule extends_with_trans)
qed

lemma strike_loop_extends:
  "strike_loop env sy e tc ks acc w = Inr (qs, w') \<Longrightarrow> extends_with (dated e) w w'"
proof (induction ks arbitrary: acc w)
  case Nil
  then show ?case by (simp add: extends_with_same)
next
  case (Cons k ks)
  from Cons.prems obtain acc1 w1 where
    r: "right_loop env sy e k tc [''C'', ''P''] acc w = Inr (acc1, w1)"
    and rest: "strike_loop env sy e tc ks acc1 w1 = Inr (qs, w')"
    by (auto split: sum.splits)
  from right_loop_extends[OF r] Cons.IH[OF rest] show ?case
    by (rule extends_with_trans)
qed

lemma quote_step_attempts:
  "quote_step env sy sp qs w = Inr (recs, w') \<Longrightarrow> attempts w' = attempts w"
  by (auto simp: quote_step_def oi_step_def split: prod.splits sum.splits if_splits)

lemma symbol_step_extends:
  assumes "symbol_step env e sy w = Inr (recs, w')"
  shows "extends_with (dated e) w w'"
proof -
  from assms obtain u w1 where
    u: "qualify_underlying_with_fallback env sy w = Inr (u, w1)"
    by (auto simp: symbol_step_def split: sum.splits)
  note first = qualify_underlying_extends[OF u, of e]
  show ?thesis
  proof (cases u)
    case None
    with assms u have "w' = w1" by (simp add: symbol_step_def)
    with first show ?thesis by simp
  next
    case (Some uc)
    from assms u Some obtain tks s2 atm qs w3 where
      s: "strike_loop env sy e (Some (tradingClass uc))
            (strikes_to_check atm (strike_increment sy) num_strikes_each_side) []
            (w1\<lparr>ib_state := s2\<rparr>) = Inr (qs, w3)"
      and fin: "(qs = [] \<and> w' = w3) \<or>
                (qs \<noteq> [] \<and> quote_step env sy (spot_price_of tks) qs w3 = Inr (recs, w'))"
      by (auto simp: symbol_step_def Let_def split: sum.splits prod.splits if_splits)
    have "extends_with (dated e) w1 (w1\<lparr>ib_state := s2\<rparr>)"
      by (simp add: extends_with_same)
    then have "extends_with (dated e) w1 w3"
      using strike_loop_extends[OF s] by (rule extends_with_trans)
    with first have a: "extends_with (dated e) w w3" by (rule extends_with_trans)
    from fin have "attempts w' = attempts w3"
      using quote_step_attempts by blast
    then have "extends_with (dated e) w3 w'" by (rule extends_with_same)
    with a show ?thesis by (rule extends_with_trans)
  qed
qed

lemma symbols_loop_extends:
  "symbols_loop env e symbols acc w = Inr (recs, w') \<Longrightarrow> extends_with (dated e) w w'"
proof (induction symbols arbitrary: acc w)
  case Nil
  then show ?case by (simp add: extends_with_same)
next
  case (Cons sy symbols)
  from Cons.prems obtain r1 w1 where
    s: "symbol_step env e sy w = Inr (r1, w1)"
    and rest: "symbols_loop env e symbols (acc @ r1) w1 = Inr (recs, w')"
    by (auto split: sum.splits)
  from symbol_step_extends[OF s] Cons.IH[OF rest] show ?case
    by (rule extends_with_trans)
qed

text \<open>
  C10. \<open>days_to_expiry\<close> has no effect: two calls that differ only in it give the same
  result from the same session. The expiry requested is the current date: every option
  descriptor submitted for qualification during a call that returns carries it.
\<close>

theorem days_to_expiry_ignored:
  "get_atm_options env symbols d1 w = get_atm_options env symbols d2 w \<and>
   (\<forall>recs w'. get_atm_options env symbols d1 w = Inr (recs, w') \<longrightarrow>
      extends_with (dated (today env)) w w')"
proof -
  have "extends_with (dated (today env)) w w'"
    if r: "get_atm_options env symbols d1 w = Inr (recs, w')" for recs w'
  proof -
    from r obtain w0 where c: "ensure_connected env w = Inr w0"
      by (auto simp: get_atm_options_def split: sum.splits)
    have a: "extends_with (dated (today env)) w w0"
      using ensure_connected_attempts[OF c] by (rule extends_with_same)
    show ?thesis
    proof (cases "symbols = []")
      case True
      with r c have "w' = w0" by (simp add: get_atm_options_def)
      with a show ?thesis by simp
    next
      case False
      with r c have "symbols_loop env (today env) symbols [] w0 = Inr (recs, w')"
        by (simp add: get_atm_options_def)
      from a symbols_loop_extends[OF this] show ?thesis by (rule extends_with_trans)
    qed
  qed
  then show ?thesis by (simp add: get_atm_options_def)
qed

theorem days_to_expiry_ignored_witness:
  "get_atm_options mixed_session [''SPX''] 0 fresh =
     get_atm_options mixed_session [''SPX''] 30 fresh \<and>
   (\<exists>w'. get_atm_options mixed_session [''SPX''] 0 fresh = Inr (mixed_records, w') \<and>
          extends_with (dated ''20240102'') fresh w')"
proof -
  obtain w' where r: "get_atm_options mixed_session [''SPX''] 0 fresh = Inr (mixed_records, w')"
    using mixed_SPX_run by blast
  from days_to_expiry_ignored[of mixed_session "[''SPX'']" 0 fresh 30] r
  have "get_atm_options mixed_session [''SPX''] 0 fresh =
          get_atm_options mixed_session [''SPX''] 30 fresh"
    and "extends_with (dated (today mixed_session)) fresh w'"
    by blast+
  with r show ?thesis by (auto simp: mixed_fields)
qed

end
